theory Spec2Isabelle
  imports Main "HOL-Library.Word"
begin

section \<open>The fetch protocol service of js-libp2p (src/fetch/index.ts)\<close>

subsection \<open>Values of the host language\<close>

text \<open>
  A JavaScript string is a sequence of 16-bit code units, and \<open>startsWith\<close>,
  \<open>+\<close> and \<open>===\<close> on strings work on that sequence. A \<open>Uint8Array\<close> is a sequence of
  bytes. String literals of the source are written \<open>str ''...''\<close>.
\<close>

type_synonym jsstring = "16 word list"

type_synonym Uint8Array = "8 word list"

definition str :: "string \<Rightarrow> jsstring" where
  "str s = map of_char s"

text \<open>
  \<open>String.prototype.startsWith(searchString)\<close> with the default position 0: the
  receiver is at least as long as the search string and agrees with it code unit by
  code unit.
\<close>

fun startsWith :: "jsstring \<Rightarrow> jsstring \<Rightarrow> bool" where
  "startsWith s [] = True"
| "startsWith [] (c # p) = False"
| "startsWith (x # s) (c # p) = (x = c \<and> startsWith s p)"

text \<open>
  Errors. \<open>errCode(new Error(message), code)\<close> is \<open>ErrCode message code\<close>; the three
  codes are the members of \<open>codes\<close> (../errors.js) that this file uses. \<open>Thrown n\<close> is any
  other value thrown by a collaborator (connection manager, stream, codec, resolver),
  kept opaque.
\<close>

datatype err_code = ERR_INVALID_MESSAGE | ERR_INVALID_PARAMETERS | ERR_KEY_ALREADY_EXISTS

datatype js_error = ErrCode jsstring err_code | Thrown nat

text \<open>
  A JavaScript \<open>Map\<close> keeps its entries in insertion order, at most one per key:
  \<open>set\<close> on a present key replaces the value in place, \<open>set\<close> on a new key appends,
  \<open>delete\<close> removes the entry, \<open>keys()\<close> iterates in insertion order and \<open>get\<close> on a
  missing key is \<open>undefined\<close> (\<open>None\<close>).
\<close>

type_synonym ('k, 'v) js_map = "('k \<times> 'v) list"

fun Map_has :: "('k, 'v) js_map \<Rightarrow> 'k \<Rightarrow> bool" where
  "Map_has [] k = False"
| "Map_has ((k', v') # m) k = (k' = k \<or> Map_has m k)"

fun Map_get :: "('k, 'v) js_map \<Rightarrow> 'k \<Rightarrow> 'v option" where
  "Map_get [] k = None"
| "Map_get ((k', v') # m) k = (if k' = k then Some v' else Map_get m k)"

fun Map_set :: "('k, 'v) js_map \<Rightarrow> 'k \<Rightarrow> 'v \<Rightarrow> ('k, 'v) js_map" where
  "Map_set [] k v = [(k, v)]"
| "Map_set ((k', v') # m) k v = (if k' = k then (k, v) # m else (k', v') # Map_set m k v)"

fun Map_delete :: "('k, 'v) js_map \<Rightarrow> 'k \<Rightarrow> ('k, 'v) js_map" where
  "Map_delete [] k = []"
| "Map_delete ((k', v') # m) k = (if k' = k then Map_delete m k else (k', v') # Map_delete m k)"

definition Map_keys :: "('k, 'v) js_map \<Rightarrow> 'k list" where
  "Map_keys m = map fst m"

subsection \<open>The service object\<close>

text \<open>
  A \<open>LookupFunction\<close> is a function object: the registry stores references, and
  \<open>!==\<close> compares references. What a call of the function does is given separately
  (the field \<open>call\<close> of \<open>Platform\<close> below). The numbers of the configuration are
  passed on and never computed with; they are integers here.
\<close>

datatype LookupFunction = FnRef nat

record FetchServiceInit =
  protocolPrefix :: "jsstring option"
  maxInboundStreams :: int
  maxOutboundStreams :: int
  timeout :: int

record FetchService =
  protocol :: jsstring
  lookupFunctions :: "(jsstring, LookupFunction) js_map"
  started :: bool
  init :: FetchServiceInit

text \<open>
  The constructor. \<open>PROTOCOL_NAME\<close> and \<open>PROTOCOL_VERSION\<close> come from ./constants.js
  and are parameters here.
\<close>

definition FetchService_new :: "jsstring \<Rightarrow> jsstring \<Rightarrow> FetchServiceInit \<Rightarrow> FetchService" where
  "FetchService_new PROTOCOL_NAME PROTOCOL_VERSION i =
     \<lparr> protocol = str ''/'' @ (case protocolPrefix i of Some p \<Rightarrow> p | None \<Rightarrow> str ''libp2p'')
                    @ str ''/'' @ PROTOCOL_NAME @ str ''/'' @ PROTOCOL_VERSION,
       lookupFunctions = [],
       started = False,
       init = i \<rparr>"

subsection \<open>The lookup registry\<close>

text \<open>
  \<open>_getLookupFunction\<close>: the \<open>for ... of\<close> loop over \<open>this.lookupFunctions.keys()\<close>,
  returning \<open>this.lookupFunctions.get(prefix)\<close> at the first prefix the key starts
  with, and \<open>undefined\<close> when the loop ends.
\<close>

fun getLookupFunction_loop ::
  "(jsstring, LookupFunction) js_map \<Rightarrow> jsstring list \<Rightarrow> jsstring \<Rightarrow> LookupFunction option" where
  "getLookupFunction_loop m [] key = None"
| "getLookupFunction_loop m (prefix # rest) key =
     (if startsWith key prefix then Map_get m prefix else getLookupFunction_loop m rest key)"

definition getLookupFunction :: "FetchService \<Rightarrow> jsstring \<Rightarrow> LookupFunction option" where
  "getLookupFunction self key =
     getLookupFunction_loop (lookupFunctions self) (Map_keys (lookupFunctions self)) key"

text \<open>
  \<open>registerLookupFunction\<close> and \<open>unregisterLookupFunction\<close> return the outcome of the
  call together with the service after it. The optional \<open>lookup\<close> argument of
  \<open>unregisterLookupFunction\<close> is an option.
\<close>

definition registerLookupFunction ::
  "jsstring \<Rightarrow> LookupFunction \<Rightarrow> FetchService \<Rightarrow> (js_error + unit) \<times> FetchService" where
  "registerLookupFunction prefix lookup self =
     (if Map_has (lookupFunctions self) prefix
      then (Inl (ErrCode (str ''Fetch protocol handler for key prefix '' @ str [CHR 0x27] @ prefix
                            @ str [CHR 0x27] @ str '' already registered'')
                   ERR_KEY_ALREADY_EXISTS), self)
      else (Inr (), self\<lparr>lookupFunctions := Map_set (lookupFunctions self) prefix lookup\<rparr>))"

definition unregisterLookupFunction ::
  "jsstring \<Rightarrow> LookupFunction option \<Rightarrow> FetchService \<Rightarrow> FetchService" where
  "unregisterLookupFunction prefix lookup self =
     (case lookup of
        Some l \<Rightarrow>
          (let existingLookup = Map_get (lookupFunctions self) prefix
           in if existingLookup \<noteq> Some l then self
              else self\<lparr>lookupFunctions := Map_delete (lookupFunctions self) prefix\<rparr>)
      | None \<Rightarrow> self\<lparr>lookupFunctions := Map_delete (lookupFunctions self) prefix\<rparr>)"

subsection \<open>Collaborators\<close>

text \<open>
  Peers, connections and streams are objects of other packages; here they are
  references. \<open>new TimeoutController(ms)\<close> is \<open>TimeoutController ms\<close> and its \<open>signal\<close>
  property is \<open>ControllerSignal\<close> of it; a signal the caller made is \<open>CallerSignal\<close>.
  \<open>AbortOptions\<close> has the one optional field \<open>signal\<close>.
\<close>

datatype PeerId = PeerId nat

datatype Connection = Connection nat

datatype Stream = Stream nat

datatype TimeoutController = TimeoutController int

datatype AbortSignal = CallerSignal nat | ControllerSignal TimeoutController

record AbortOptions =
  signal :: "AbortSignal option"

text \<open>
  Modelled from the spec: the message types \<open>FetchRequest\<close> and \<open>FetchResponse\<close> of
  ./pb/proto.js, which is not among the sources. A request has the one field
  \<open>identifier\<close>; a response has \<open>status\<close> (OK, NOT_FOUND, ERROR) and \<open>data\<close>. A
  decoded status outside the three is \<open>UNRECOGNIZED\<close>: the \<open>default\<close> branch of the
  \<open>switch\<close> in \<open>fetch\<close>.
\<close>

datatype StatusCode = OK | NOT_FOUND | ERROR | UNRECOGNIZED int

record FetchRequest =
  "identifier" :: jsstring

record FetchResponse =
  status :: StatusCode
  data :: Uint8Array

text \<open>
  What the engine does to the outside world, in the order it does it:
  \<^item> \<open>OpenConnection peer options\<close>: \<open>getConnectionManager().openConnection(peer, options)\<close>;
  \<^item> \<open>NewTimeoutController ms\<close>: \<open>new TimeoutController(ms)\<close>;
  \<^item> \<open>NewStream connection protocols signal outcome\<close>:
    \<open>connection.newStream(protocols, { signal })\<close> and what it gave;
  \<^item> \<open>AbortableDuplex stream signal\<close>: \<open>abortableDuplex(stream, signal)\<close>, through which
    the pipe of \<open>fetch\<close> writes and reads;
  \<^item> \<open>TimeoutClear\<close>: \<open>timeoutController.clear()\<close>;
  \<^item> \<open>StreamClose stream\<close>: \<open>stream.close()\<close>;
  \<^item> \<open>StreamSink stream frames\<close>: the frames the pipe of \<open>handleMessage\<close> hands to the
    stream;
  \<^item> \<open>LogError err\<close>: \<open>log.error(err)\<close>.
  The other calls of \<open>log\<close> and \<open>setMaxListeners\<close> (whose failure is caught and dropped)
  leave no event.
\<close>

datatype event =
    OpenConnection PeerId AbortOptions
  | NewTimeoutController int
  | NewStream Connection "jsstring list" AbortSignal "js_error + Stream"
  | AbortableDuplex Stream AbortSignal
  | TimeoutClear
  | StreamClose Stream
  | StreamSink Stream "Uint8Array list"
  | LogError js_error

text \<open>
  \<open>Components\<close>: the registrar and the connection manager behind
  \<open>this.components\<close>, and \<open>newStream\<close> of the connections it opens. Each field is the
  outcome of the awaited call on its arguments: \<open>Inl e\<close> when it throws or rejects
  with \<open>e\<close> (an abort by the signal included), \<open>Inr\<close> when it returns. \<open>handle\<close> takes
  the protocol and the pair of \<open>maxInboundStreams\<close> and \<open>maxOutboundStreams\<close>; the
  handler function it is given is \<open>start_handler\<close> below.
\<close>

record Components =
  handle :: "jsstring \<Rightarrow> int \<times> int \<Rightarrow> js_error + unit"
  unhandle :: "jsstring \<Rightarrow> js_error + unit"
  openConnection :: "PeerId \<Rightarrow> AbortOptions \<Rightarrow> js_error + Connection"
  newStream :: "Connection \<Rightarrow> jsstring list \<Rightarrow> AbortSignal \<Rightarrow> js_error + Stream"

text \<open>
  \<open>Platform\<close>: the imported codecs and the stream I/O.
  \<^item> \<open>FetchRequest_encode\<close> ... \<open>FetchResponse_decode\<close>: the protobuf codec of
    ./pb/proto.js; decoding can throw.
  \<^item> \<open>TextEncoder_encode\<close>, \<open>TextDecoder_decode\<close>: \<open>new TextEncoder().encode\<close> and
    \<open>new TextDecoder().decode\<close>, UTF-8 both.
  \<^item> \<open>exchange stream signal request\<close>: in \<open>fetch\<close>, what \<open>await first(source)\<close> gives
    after the framed request went into the abortable duplex over \<open>stream\<close>: a thrown
    error (abort, stream or framing failure), \<open>undefined\<close> (\<open>Inr None\<close>) when the
    stream ended with no frame, or the first frame.
  \<^item> \<open>receive stream\<close>: the same \<open>await first(source)\<close> in \<open>handleMessage\<close>.
  \<^item> \<open>sink stream frames\<close> and \<open>sink_failed stream e\<close>: the outcome of
    \<open>stream.sink(source)\<close>, the promise that the pipe of \<open>handleMessage\<close> returns,
    by what its source does: it yields \<open>frames\<close> and ends, or it throws \<open>e\<close> before
    it yields anything. What the sink makes of a source that throws (it rejects
    with the error, with another one, or resolves) is the stream's own matter.
  \<^item> \<open>call lookup key\<close>: \<open>await lookup(key)\<close> for a registered function object: it
    throws, returns a value or returns \<open>null\<close>.
\<close>

record Platform =
  FetchRequest_encode :: "FetchRequest \<Rightarrow> Uint8Array"
  FetchRequest_decode :: "Uint8Array \<Rightarrow> js_error + FetchRequest"
  FetchResponse_encode :: "FetchResponse \<Rightarrow> Uint8Array"
  FetchResponse_decode :: "Uint8Array \<Rightarrow> js_error + FetchResponse"
  TextEncoder_encode :: "jsstring \<Rightarrow> Uint8Array"
  TextDecoder_decode :: "Uint8Array \<Rightarrow> jsstring"
  exchange :: "Stream \<Rightarrow> AbortSignal \<Rightarrow> Uint8Array \<Rightarrow> js_error + Uint8Array option"
  receive :: "Stream \<Rightarrow> js_error + Uint8Array option"
  sink :: "Stream \<Rightarrow> Uint8Array list \<Rightarrow> js_error + unit"
  sink_failed :: "Stream \<Rightarrow> js_error \<Rightarrow> js_error + unit"
  call :: "LookupFunction \<Rightarrow> jsstring \<Rightarrow> js_error + Uint8Array option"

subsection \<open>Lifecycle\<close>

text \<open>
  \<open>start\<close> and \<open>stop\<close>: the registrar call is awaited first; when it throws, the
  assignment to \<open>this.started\<close> after it is not reached.
\<close>

definition start :: "Components \<Rightarrow> FetchService \<Rightarrow> (js_error + unit) \<times> FetchService" where
  "start c self =
     (case handle c (protocol self) (maxInboundStreams (init self), maxOutboundStreams (init self)) of
        Inl e \<Rightarrow> (Inl e, self)
      | Inr _ \<Rightarrow> (Inr (), self\<lparr>started := True\<rparr>))"

definition stop :: "Components \<Rightarrow> FetchService \<Rightarrow> (js_error + unit) \<times> FetchService" where
  "stop c self =
     (case unhandle c (protocol self) of
        Inl e \<Rightarrow> (Inl e, self)
      | Inr _ \<Rightarrow> (Inr (), self\<lparr>started := False\<rparr>))"

definition isStarted :: "FetchService \<Rightarrow> bool" where
  "isStarted self = started self"

subsection \<open>The outbound flow\<close>

text \<open>
  The last stage of the pipe in \<open>fetch\<close>: the \<open>async function (source)\<close> that reads
  the first frame, decodes it and switches on the status. \<open>return result ?? null\<close>
  keeps a value and turns \<open>undefined\<close> into \<open>null\<close>: absence is \<open>None\<close>.
\<close>

definition fetch_response :: "Platform \<Rightarrow> Uint8Array option \<Rightarrow> js_error + Uint8Array option" where
  "fetch_response pf buf =
     (case buf of
        None \<Rightarrow> Inl (ErrCode (str ''No data received'') ERR_INVALID_MESSAGE)
      | Some b \<Rightarrow>
          (case FetchResponse_decode pf b of
             Inl e \<Rightarrow> Inl e
           | Inr response \<Rightarrow>
               (case status response of
                  OK \<Rightarrow> Inr (Some (data response))
                | NOT_FOUND \<Rightarrow> Inr None
                | ERROR \<Rightarrow>
                    (let errmsg = TextDecoder_decode pf (data response)
                     in Inl (ErrCode (str ''Error in fetch protocol response: '' @ errmsg)
                               ERR_INVALID_PARAMETERS))
                | UNRECOGNIZED n \<Rightarrow>
                    Inl (ErrCode (str ''Unknown response status'') ERR_INVALID_MESSAGE))))"

text \<open>
  The \<open>try\<close> block of \<open>fetch\<close>: its outcome, the value of the variable \<open>stream\<close> when
  the block is left, and the events.
\<close>

definition fetch_try ::
  "Components \<Rightarrow> Platform \<Rightarrow> FetchService \<Rightarrow> Connection \<Rightarrow> AbortSignal \<Rightarrow> jsstring
     \<Rightarrow> (js_error + Uint8Array option) \<times> Stream option \<times> event list" where
  "fetch_try c pf self conn sg key =
     (case newStream c conn [protocol self] sg of
        Inl e \<Rightarrow> (Inl e, None, [NewStream conn [protocol self] sg (Inl e)])
      | Inr st \<Rightarrow>
          (case exchange pf st sg (FetchRequest_encode pf \<lparr>identifier = key\<rparr>) of
             Inl e \<Rightarrow>
               (Inl e, Some st, [NewStream conn [protocol self] sg (Inr st), AbortableDuplex st sg])
           | Inr buf \<Rightarrow>
               (fetch_response pf buf, Some st,
                [NewStream conn [protocol self] sg (Inr st), AbortableDuplex st sg])))"

text \<open>The \<open>finally\<close> block of \<open>fetch\<close>.\<close>

definition fetch_finally :: "TimeoutController option \<Rightarrow> Stream option \<Rightarrow> event list" where
  "fetch_finally timeoutController st =
     (case timeoutController of Some t \<Rightarrow> [TimeoutClear] | None \<Rightarrow> [])
     @ (case st of Some s \<Rightarrow> [StreamClose s] | None \<Rightarrow> [])"

text \<open>
  The variables \<open>timeoutController\<close> and \<open>signal\<close> of \<open>fetch\<close> after the
  \<open>if (signal == null)\<close> block: a controller exists only when the caller gave no
  signal, and then \<open>signal\<close> is the controller's.
\<close>

definition fetch_timeoutController :: "FetchService \<Rightarrow> AbortOptions \<Rightarrow> TimeoutController option" where
  "fetch_timeoutController self options =
     (case signal options of
        None \<Rightarrow> Some (TimeoutController (timeout (init self)))
      | Some s \<Rightarrow> None)"

definition fetch_signal :: "FetchService \<Rightarrow> AbortOptions \<Rightarrow> AbortSignal" where
  "fetch_signal self options =
     (case signal options of
        None \<Rightarrow> ControllerSignal (TimeoutController (timeout (init self)))
      | Some s \<Rightarrow> s)"

text \<open>
  \<open>fetch\<close>: the connection is awaited before anything else; a failure there leaves
  the function at once. The outcome of the \<open>try\<close> block is the outcome of the call
  (\<open>clear\<close> and \<open>close\<close> return nothing and do not throw).
\<close>

definition fetch ::
  "Components \<Rightarrow> Platform \<Rightarrow> FetchService \<Rightarrow> PeerId \<Rightarrow> jsstring \<Rightarrow> AbortOptions
     \<Rightarrow> (js_error + Uint8Array option) \<times> event list" where
  "fetch c pf self peer key options =
     (case openConnection c peer options of
        Inl e \<Rightarrow> (Inl e, [OpenConnection peer options])
      | Inr conn \<Rightarrow>
          (let timeoutController = fetch_timeoutController self options;
               sg = fetch_signal self options;
               created = (case timeoutController of
                            Some (TimeoutController ms) \<Rightarrow> [NewTimeoutController ms]
                          | None \<Rightarrow> [])
           in case fetch_try c pf self conn sg key of
                (result, st, evs) \<Rightarrow>
                  (result,
                   [OpenConnection peer options] @ created @ evs
                     @ fetch_finally timeoutController st)))"

subsection \<open>The inbound flow\<close>

text \<open>
  The part of the generator in \<open>handleMessage\<close> after the request is decoded: the
  response it builds, or the error of a resolver that throws.
\<close>

definition handleMessage_response ::
  "Platform \<Rightarrow> FetchService \<Rightarrow> FetchRequest \<Rightarrow> js_error + FetchResponse" where
  "handleMessage_response pf self request =
     (case getLookupFunction self (identifier request) of
        Some lookup \<Rightarrow>
          (case call pf lookup (identifier request) of
             Inl e \<Rightarrow> Inl e
           | Inr (Some d) \<Rightarrow> Inr \<lparr>status = OK, data = d\<rparr>
           | Inr None \<Rightarrow> Inr \<lparr>status = NOT_FOUND, data = []\<rparr>)
      | None \<Rightarrow>
          (let errmsg = TextEncoder_encode pf
                          (str ''No lookup function registered for key: '' @ identifier request)
           in Inr \<lparr>status = ERROR, data = errmsg\<rparr>))"

text \<open>
  The generator as a whole, on what \<open>first(source)\<close> gave: the list of the values it
  yields, or the error it throws (it throws only before its one \<open>yield\<close>).
\<close>

definition handleMessage_generator ::
  "Platform \<Rightarrow> FetchService \<Rightarrow> Uint8Array option \<Rightarrow> js_error + Uint8Array list" where
  "handleMessage_generator pf self buf =
     (case buf of
        None \<Rightarrow> Inl (ErrCode (str ''No data received'') ERR_INVALID_MESSAGE)
      | Some b \<Rightarrow>
          (case FetchRequest_decode pf b of
             Inl e \<Rightarrow> Inl e
           | Inr request \<Rightarrow>
               (case handleMessage_response pf self request of
                  Inl e \<Rightarrow> Inl e
                | Inr response \<Rightarrow> Inr [FetchResponse_encode pf response])))"

text \<open>
  \<open>handleMessage\<close> on the stream of its argument (\<open>const { stream } = data\<close>). It
  awaits \<open>pipe(stream, lp.decode(), generator, lp.encode(), stream)\<close>, which is the
  promise of the stream's sink on the output of the generator. The pipe has no
  \<open>catch\<close>: when reading the first frame fails or the generator throws, the source
  of the sink throws that error, no frame is handed to the stream, and the outcome
  of \<open>handleMessage\<close> is what the sink makes of it.
\<close>

definition handleMessage ::
  "Platform \<Rightarrow> FetchService \<Rightarrow> Stream \<Rightarrow> (js_error + unit) \<times> event list" where
  "handleMessage pf self st =
     (case receive pf st of
        Inl e \<Rightarrow> (sink_failed pf st e, [])
      | Inr buf \<Rightarrow>
          (case handleMessage_generator pf self buf of
             Inl e \<Rightarrow> (sink_failed pf st e, [])
           | Inr frames \<Rightarrow> (sink pf st frames, [StreamSink st frames])))"

text \<open>
  The handler that \<open>start\<close> gives to the registrar:
  \<open>handleMessage(data).catch(err => log.error(err)).finally(() => data.stream.close())\<close>.
\<close>

definition start_handler :: "Platform \<Rightarrow> FetchService \<Rightarrow> Stream \<Rightarrow> event list" where
  "start_handler pf self st =
     (case handleMessage pf self st of
        (Inl err, evs) \<Rightarrow> evs @ [LogError err] @ [StreamClose st]
      | (Inr _, evs) \<Rightarrow> evs @ [StreamClose st])"

subsection \<open>States and instances\<close>

text \<open>
  The services a program can hold: a constructed one, and what the public methods
  that assign to its fields make of one.
\<close>

inductive reachable :: "FetchService \<Rightarrow> bool" where
  by_new: "reachable (FetchService_new n v i)"
| by_register: "reachable s \<Longrightarrow> reachable (snd (registerLookupFunction prefix lookup s))"
| by_unregister: "reachable s \<Longrightarrow> reachable (unregisterLookupFunction prefix lookup' s)"
| by_start: "reachable s \<Longrightarrow> reachable (snd (start c s))"
| by_stop: "reachable s \<Longrightarrow> reachable (snd (stop c s))"

text \<open>Concrete instances, for evaluating the functions above.\<close>

definition example_init :: FetchServiceInit where
  "example_init = \<lparr>protocolPrefix = None, maxInboundStreams = 1, maxOutboundStreams = 1,
                    timeout = 10000\<rparr>"

definition example_service :: FetchService where
  "example_service =
     \<lparr>protocol = str ''/libp2p/fetch/0.0.1'',
      lookupFunctions = [(str ''b'', FnRef 10), (str ''a'', FnRef 11), (str ''ab'', FnRef 12)],
      started = False,
      init = example_init\<rparr>"

text \<open>
  Collaborators that always succeed, and a platform whose stream gives \<open>reply\<close> to
  \<open>first(source)\<close> and whose sink rejects with the error of a source that throws,
  as a \<open>for await\<close> loop over the source does. Its codecs are stand-ins for
  evaluation (one status byte before the data, one byte per code unit), not the
  protobuf wire format. The resolver
  \<open>FnRef 11\<close> returns the bytes 1, 2, 3; \<open>FnRef 10\<close> returns \<open>null\<close>; any other throws.
\<close>

definition example_components :: Components where
  "example_components =
     \<lparr>handle = (\<lambda>p opts. Inr ()),
      unhandle = (\<lambda>p. Inr ()),
      openConnection = (\<lambda>peer opts. Inr (Connection 1)),
      newStream = (\<lambda>conn ps sg. Inr (Stream 5))\<rparr>"

fun status_of_byte :: "8 word \<Rightarrow> StatusCode" where
  "status_of_byte b =
     (if b = 0 then OK else if b = 1 then NOT_FOUND else if b = 2 then ERROR
      else UNRECOGNIZED (uint b))"

fun byte_of_status :: "StatusCode \<Rightarrow> 8 word" where
  "byte_of_status OK = 0"
| "byte_of_status NOT_FOUND = 1"
| "byte_of_status ERROR = 2"
| "byte_of_status (UNRECOGNIZED n) = word_of_int n"

definition example_platform :: "(js_error + Uint8Array option) \<Rightarrow> Platform" where
  "example_platform reply =
     \<lparr>FetchRequest_encode = (\<lambda>r. map ucast (identifier r)),
      FetchRequest_decode = (\<lambda>b. Inr \<lparr>identifier = map ucast b\<rparr>),
      FetchResponse_encode = (\<lambda>r. byte_of_status (status r) # data r),
      FetchResponse_decode =
        (\<lambda>b. case b of [] \<Rightarrow> Inl (Thrown 0)
                       | x # d \<Rightarrow> Inr \<lparr>status = status_of_byte x, data = d\<rparr>),
      TextEncoder_encode = map ucast,
      TextDecoder_decode = map ucast,
      exchange = (\<lambda>st sg req. reply),
      receive = (\<lambda>st. reply),
      sink = (\<lambda>st frames. Inr ()),
      sink_failed = (\<lambda>st e. Inl e),
      call = (\<lambda>f key. if f = FnRef 11 then Inr (Some [1, 2, 3])
                       else if f = FnRef 10 then Inr None
                       else Inl (Thrown 9))\<rparr>"

section \<open>Properties\<close>

subsection \<open>Strings and maps\<close>

lemma startsWith_iff: "startsWith s p \<longleftrightarrow> (\<exists>t. s = p @ t)"
  by (induction s p rule: startsWith.induct) auto

lemma Map_has_iff: "Map_has m k \<longleftrightarrow> k \<in> fst ` set m"
  by (induction m) auto

lemma Map_get_first:
  "i < length m \<Longrightarrow> fst (m ! i) = k \<Longrightarrow> (\<And>j. j < i \<Longrightarrow> fst (m ! j) \<noteq> k)
     \<Longrightarrow> Map_get m k = Some (snd (m ! i))"
proof (induction m arbitrary: i)
  case Nil
  then show ?case by simp
next
  case (Cons a m)
  obtain k' v' where a: "a = (k', v')" by (cases a)
  show ?case
  proof (cases i)
    case 0
    with Cons.prems a show ?thesis by simp
  next
    case (Suc n)
    from Cons.prems(3) [of 0] Suc a have ne: "k' \<noteq> k" by simp
    have "Map_get m k = Some (snd (m ! n))"
    proof (rule Cons.IH)
      show "n < length m" using Cons.prems(1) Suc by simp
      show "fst (m ! n) = k" using Cons.prems(2) Suc by simp
      fix j assume "j < n"
      then show "fst (m ! j) \<noteq> k" using Cons.prems(3) [of "Suc j"] Suc by simp
    qed
    with ne a Suc show ?thesis by simp
  qed
qed

lemma Map_set_new: "k \<notin> fst ` set m \<Longrightarrow> Map_set m k v = m @ [(k, v)]"
  by (induction m) auto

lemma Map_delete_filter: "Map_delete m k = filter (\<lambda>e. fst e \<noteq> k) m"
  by (induction m) auto

lemma filter_absent: "k \<notin> fst ` set m \<Longrightarrow> filter (\<lambda>e. fst e \<noteq> k) m = m"
  by (induction m) auto

lemma Map_get_filter:
  "Map_get (filter (\<lambda>e. fst e \<noteq> k) m) p = (if p = k then None else Map_get m p)"
  by (induction m) auto

lemma distinct_keys_filter:
  "distinct (map fst m) \<Longrightarrow> distinct (map fst (filter (\<lambda>e. fst e \<noteq> k) m))"
  by (induction m) auto

subsection \<open>Resolving a key\<close>

lemma getLookupFunction_loop_find:
  "getLookupFunction_loop m ks key =
     (case find (\<lambda>p. startsWith key p) ks of None \<Rightarrow> None | Some p \<Rightarrow> Map_get m p)"
  by (induction ks) auto

lemma getLookupFunction_Some_iff:
  "getLookupFunction self key = Some f \<longleftrightarrow>
     (\<exists>i < length (lookupFunctions self).
        (\<exists>t. key = fst (lookupFunctions self ! i) @ t)
        \<and> (\<forall>j < i. \<not> (\<exists>t. key = fst (lookupFunctions self ! j) @ t))
        \<and> snd (lookupFunctions self ! i) = f)"
  (is "?L \<longleftrightarrow> ?R")
proof
  let ?m = "lookupFunctions self"
  assume ?L
  then obtain p where fp: "find (\<lambda>p. startsWith key p) (map fst ?m) = Some p"
    and gp: "Map_get ?m p = Some f"
    by (auto simp: getLookupFunction_def Map_keys_def getLookupFunction_loop_find
        split: option.splits)
  from fp obtain i where i: "i < length ?m" "startsWith key (fst (?m ! i))" "p = fst (?m ! i)"
    and before: "\<forall>j<i. \<not> startsWith key (fst (?m ! j))"
    by (auto simp: find_Some_iff)
  have "Map_get ?m p = Some (snd (?m ! i))"
  proof (rule Map_get_first)
    show "i < length ?m" by (rule i(1))
    show "fst (?m ! i) = p" using i(3) by simp
    fix j assume "j < i"
    with before have "\<not> startsWith key (fst (?m ! j))" by simp
    with i(2,3) show "fst (?m ! j) \<noteq> p" by auto
  qed
  with gp have "snd (?m ! i) = f" by simp
  with i before show ?R by (auto simp: startsWith_iff)
next
  let ?m = "lookupFunctions self"
  assume ?R
  then obtain i where i: "i < length ?m" "startsWith key (fst (?m ! i))"
    and before: "\<forall>j<i. \<not> startsWith key (fst (?m ! j))"
    and f: "snd (?m ! i) = f"
    by (auto simp: startsWith_iff)
  have fp: "find (\<lambda>p. startsWith key p) (map fst ?m) = Some (fst (?m ! i))"
    unfolding find_Some_iff using i before by (intro exI [of _ i]) simp
  have "Map_get ?m (fst (?m ! i)) = Some (snd (?m ! i))"
  proof (rule Map_get_first)
    show "i < length ?m" by (rule i(1))
    show "fst (?m ! i) = fst (?m ! i)" by simp
    fix j assume "j < i"
    with before have "\<not> startsWith key (fst (?m ! j))" by simp
    with i(2) show "fst (?m ! j) \<noteq> fst (?m ! i)" by auto
  qed
  with fp f show ?L
    by (simp add: getLookupFunction_def Map_keys_def getLookupFunction_loop_find)
qed

lemma getLookupFunction_None_iff:
  "getLookupFunction self key = None \<longleftrightarrow>
     (\<forall>p \<in> fst ` set (lookupFunctions self). \<not> (\<exists>t. key = p @ t))"
proof -
  let ?m = "lookupFunctions self"
  have "getLookupFunction self key = None \<longleftrightarrow> (\<forall>f. getLookupFunction self key \<noteq> Some f)"
    by auto
  also have "\<dots> \<longleftrightarrow> (\<forall>i < length ?m. \<not> (\<exists>t. key = fst (?m ! i) @ t))"
    (is "?A \<longleftrightarrow> ?B")
  proof
    assume a: ?A
    show ?B
    proof (rule ccontr)
      assume "\<not> ?B"
      then have ex: "\<exists>i. i < length ?m \<and> (\<exists>t. key = fst (?m ! i) @ t)" by blast
      define i where "i = (LEAST i. i < length ?m \<and> (\<exists>t. key = fst (?m ! i) @ t))"
      have i: "i < length ?m \<and> (\<exists>t. key = fst (?m ! i) @ t)"
        unfolding i_def using ex by (rule LeastI_ex)
      have least: "\<And>j. j < i \<Longrightarrow> \<not> (j < length ?m \<and> (\<exists>t. key = fst (?m ! j) @ t))"
        unfolding i_def by (rule not_less_Least)
      have "getLookupFunction self key = Some (snd (?m ! i))"
        unfolding getLookupFunction_Some_iff using i least
        by (intro exI [of _ i]) auto
      with a show False by simp
    qed
  next
    assume ?B
    then show ?A by (auto simp: getLookupFunction_Some_iff)
  qed
  also have "\<dots> \<longleftrightarrow> (\<forall>p \<in> fst ` set ?m. \<not> (\<exists>t. key = p @ t))"
    (is "?B \<longleftrightarrow> ?C")
  proof
    assume b: ?B
    show ?C
    proof
      fix p assume "p \<in> fst ` set ?m"
      then obtain e where "e \<in> set ?m" "p = fst e" by auto
      then obtain i where "i < length ?m" "p = fst (?m ! i)"
        by (auto simp: in_set_conv_nth)
      with b show "\<not> (\<exists>t. key = p @ t)" by simp
    qed
  next
    assume c: ?C
    show ?B
    proof (intro allI impI)
      fix i assume "i < length ?m"
      then have "fst (?m ! i) \<in> fst ` set ?m" by simp
      with c show "\<not> (\<exists>t. key = fst (?m ! i) @ t)" by blast
    qed
  qed
  finally show ?thesis .
qed

text \<open>
  Claim C1. \<open>_getLookupFunction\<close> returns the resolver of the entry at the least
  position of the registry (the entries stand in registration order) whose prefix
  the key starts with, code unit by code unit; it returns nothing exactly when no
  registered prefix is a prefix of the key. With resolvers registered for "a" and
  then "ab" on a new service, both registrations succeed and the key "abc" resolves
  to the resolver of "a".
\<close>

theorem getLookupFunction_first_registered_prefix:
  "(getLookupFunction self key = Some f \<longleftrightarrow>
      (\<exists>i < length (lookupFunctions self).
         (\<exists>t. key = fst (lookupFunctions self ! i) @ t)
         \<and> (\<forall>j < i. \<not> (\<exists>t. key = fst (lookupFunctions self ! j) @ t))
         \<and> snd (lookupFunctions self ! i) = f))
   \<and> (getLookupFunction self key = None \<longleftrightarrow>
        (\<forall>p \<in> fst ` set (lookupFunctions self). \<not> (\<exists>t. key = p @ t)))
   \<and> fst (registerLookupFunction (str ''a'') fa (FetchService_new n v i0)) = Inr ()
   \<and> fst (registerLookupFunction (str ''ab'') fab
            (snd (registerLookupFunction (str ''a'') fa (FetchService_new n v i0)))) = Inr ()
   \<and> getLookupFunction
        (snd (registerLookupFunction (str ''ab'') fab
           (snd (registerLookupFunction (str ''a'') fa (FetchService_new n v i0)))))
        (str ''abc'') = Some fa"
proof (intro conjI)
  show "getLookupFunction self key = Some f \<longleftrightarrow>
      (\<exists>i < length (lookupFunctions self).
         (\<exists>t. key = fst (lookupFunctions self ! i) @ t)
         \<and> (\<forall>j < i. \<not> (\<exists>t. key = fst (lookupFunctions self ! j) @ t))
         \<and> snd (lookupFunctions self ! i) = f)"
    by (rule getLookupFunction_Some_iff)
  show "getLookupFunction self key = None \<longleftrightarrow>
        (\<forall>p \<in> fst ` set (lookupFunctions self). \<not> (\<exists>t. key = p @ t))"
    by (rule getLookupFunction_None_iff)
  show "fst (registerLookupFunction (str ''a'') fa (FetchService_new n v i0)) = Inr ()"
    by (simp add: registerLookupFunction_def FetchService_new_def)
  show "fst (registerLookupFunction (str ''ab'') fab
            (snd (registerLookupFunction (str ''a'') fa (FetchService_new n v i0)))) = Inr ()"
    by (simp add: registerLookupFunction_def FetchService_new_def str_def)
  show "getLookupFunction
        (snd (registerLookupFunction (str ''ab'') fab
           (snd (registerLookupFunction (str ''a'') fa (FetchService_new n v i0)))))
        (str ''abc'') = Some fa"
    by (simp add: registerLookupFunction_def FetchService_new_def getLookupFunction_def
        Map_keys_def str_def)
qed

theorem getLookupFunction_first_registered_prefix_witness:
  "getLookupFunction example_service (str ''abc'') = Some (FnRef 11)
   \<and> getLookupFunction example_service (str ''ca'') = None"
proof -
  have h1: "\<exists>i < length (lookupFunctions example_service).
        (\<exists>t. str ''abc'' = fst (lookupFunctions example_service ! i) @ t)
        \<and> (\<forall>j < i. \<not> (\<exists>t. str ''abc'' = fst (lookupFunctions example_service ! j) @ t))
        \<and> snd (lookupFunctions example_service ! i) = FnRef 11"
    by (rule exI [of _ 1]) (simp add: example_service_def str_def)
  have h2: "\<forall>p \<in> fst ` set (lookupFunctions example_service). \<not> (\<exists>t. str ''ca'' = p @ t)"
    by (simp add: example_service_def str_def)
  from h1 have "getLookupFunction example_service (str ''abc'') = Some (FnRef 11)"
    using getLookupFunction_first_registered_prefix
      [of example_service "str ''abc''" "FnRef 11"] by blast
  moreover from h2 have "getLookupFunction example_service (str ''ca'') = None"
    using getLookupFunction_first_registered_prefix
      [of example_service "str ''ca''"] by blast
  ultimately show ?thesis by simp
qed

subsection \<open>Registering and unregistering\<close>

lemma registerLookupFunction_present:
  "prefix \<in> fst ` set (lookupFunctions self) \<Longrightarrow>
     registerLookupFunction prefix lookup self =
       (Inl (ErrCode (str ''Fetch protocol handler for key prefix '' @ str [CHR 0x27] @ prefix
                        @ str [CHR 0x27] @ str '' already registered'')
               ERR_KEY_ALREADY_EXISTS), self)"
  by (simp add: registerLookupFunction_def Map_has_iff)

lemma registerLookupFunction_absent:
  "prefix \<notin> fst ` set (lookupFunctions self) \<Longrightarrow>
     registerLookupFunction prefix lookup self =
       (Inr (), self\<lparr>lookupFunctions := lookupFunctions self @ [(prefix, lookup)]\<rparr>)"
  by (simp add: registerLookupFunction_def Map_has_iff Map_set_new)

lemma unregisterLookupFunction_None:
  "unregisterLookupFunction prefix None self =
     self\<lparr>lookupFunctions := filter (\<lambda>e. fst e \<noteq> prefix) (lookupFunctions self)\<rparr>"
  by (simp add: unregisterLookupFunction_def Map_delete_filter)

lemma unregisterLookupFunction_same:
  "Map_get (lookupFunctions self) prefix = Some l \<Longrightarrow>
   unregisterLookupFunction prefix (Some l) self =
     self\<lparr>lookupFunctions := filter (\<lambda>e. fst e \<noteq> prefix) (lookupFunctions self)\<rparr>"
  by (simp add: unregisterLookupFunction_def Map_delete_filter)

lemma unregisterLookupFunction_other:
  "Map_get (lookupFunctions self) prefix \<noteq> Some l \<Longrightarrow>
   unregisterLookupFunction prefix (Some l) self = self"
  by (simp add: unregisterLookupFunction_def)

lemma unregisterLookupFunction_absent:
  "prefix \<notin> fst ` set (lookupFunctions self) \<Longrightarrow>
   unregisterLookupFunction prefix lookup self = self"
  by (cases lookup) (simp_all add: unregisterLookupFunction_def Map_delete_filter filter_absent)

lemma distinct_keys_register:
  "distinct (map fst (lookupFunctions s)) \<Longrightarrow>
   distinct (map fst (lookupFunctions (snd (registerLookupFunction prefix lookup s))))"
  by (cases "prefix \<in> fst ` set (lookupFunctions s)")
     (simp_all add: registerLookupFunction_present registerLookupFunction_absent)

lemma distinct_keys_unregister:
  "distinct (map fst (lookupFunctions s)) \<Longrightarrow>
   distinct (map fst (lookupFunctions (unregisterLookupFunction prefix lookup s)))"
  by (cases lookup)
     (auto simp: unregisterLookupFunction_def Map_delete_filter distinct_keys_filter Let_def)

lemma reachable_distinct_keys: "reachable s \<Longrightarrow> distinct (map fst (lookupFunctions s))"
proof (induction rule: reachable.induct)
  case (by_new n v i)
  show ?case by (simp add: FetchService_new_def)
next
  case (by_register s prefix lookup)
  then show ?case by (simp add: distinct_keys_register)
next
  case (by_unregister s prefix lookup')
  then show ?case by (simp add: distinct_keys_unregister)
next
  case (by_start s c)
  then show ?case by (simp add: start_def split: sum.splits)
next
  case (by_stop s c)
  then show ?case by (simp add: stop_def split: sum.splits)
qed

lemma reachable_example_service: "reachable example_service"
proof -
  have "example_service =
          snd (registerLookupFunction (str ''ab'') (FnRef 12)
            (snd (registerLookupFunction (str ''a'') (FnRef 11)
              (snd (registerLookupFunction (str ''b'') (FnRef 10)
                (FetchService_new (str ''fetch'') (str ''0.0.1'') example_init))))))"
    (is "_ = ?built")
    by (simp add: registerLookupFunction_def FetchService_new_def example_service_def
        example_init_def str_def)
  moreover have "reachable ?built" by (intro reachable.intros)
  ultimately show ?thesis by simp
qed

text \<open>
  Claim C3. Registering a prefix that is registered fails with the error code
  ERR_KEY_ALREADY_EXISTS and leaves the service as it was; registering a prefix that
  is not registered succeeds, appends the pair (prefix, resolver) to the registry
  and changes nothing else. So a second registration of the same prefix fails, in
  every service a program can reach the prefixes of the registry are pairwise
  distinct, and after the prefix is unregistered (with no resolver argument, or with
  the stored resolver) it registers again.
\<close>

theorem registerLookupFunction_exclusive:
  "(prefix \<in> fst ` set (lookupFunctions self) \<longrightarrow>
      (\<exists>msg. fst (registerLookupFunction prefix lookup self) = Inl (ErrCode msg ERR_KEY_ALREADY_EXISTS))
      \<and> snd (registerLookupFunction prefix lookup self) = self)
   \<and> (prefix \<notin> fst ` set (lookupFunctions self) \<longrightarrow>
        registerLookupFunction prefix lookup self =
          (Inr (), self\<lparr>lookupFunctions := lookupFunctions self @ [(prefix, lookup)]\<rparr>))
   \<and> (reachable self \<longrightarrow> distinct (map fst (lookupFunctions self)))
   \<and> (\<exists>msg. fst (registerLookupFunction prefix lookup2
                  (snd (registerLookupFunction prefix lookup self)))
              = Inl (ErrCode msg ERR_KEY_ALREADY_EXISTS))
   \<and> fst (registerLookupFunction prefix lookup
            (unregisterLookupFunction prefix None self)) = Inr ()
   \<and> (Map_get (lookupFunctions self) prefix = Some l \<longrightarrow>
        fst (registerLookupFunction prefix lookup
               (unregisterLookupFunction prefix (Some l) self)) = Inr ())"
proof (intro conjI impI)
  assume "prefix \<in> fst ` set (lookupFunctions self)"
  then show "\<exists>msg. fst (registerLookupFunction prefix lookup self)
                 = Inl (ErrCode msg ERR_KEY_ALREADY_EXISTS)"
    and "snd (registerLookupFunction prefix lookup self) = self"
    by (simp_all add: registerLookupFunction_present)
next
  assume "prefix \<notin> fst ` set (lookupFunctions self)"
  then show "registerLookupFunction prefix lookup self =
          (Inr (), self\<lparr>lookupFunctions := lookupFunctions self @ [(prefix, lookup)]\<rparr>)"
    by (rule registerLookupFunction_absent)
next
  assume "reachable self"
  then show "distinct (map fst (lookupFunctions self))" by (rule reachable_distinct_keys)
next
  have "prefix \<in> fst ` set (lookupFunctions (snd (registerLookupFunction prefix lookup self)))"
    by (cases "prefix \<in> fst ` set (lookupFunctions self)")
       (simp_all add: registerLookupFunction_present registerLookupFunction_absent)
  then show "\<exists>msg. fst (registerLookupFunction prefix lookup2
                  (snd (registerLookupFunction prefix lookup self)))
              = Inl (ErrCode msg ERR_KEY_ALREADY_EXISTS)"
    by (simp add: registerLookupFunction_present)
next
  have "prefix \<notin> fst ` set (lookupFunctions (unregisterLookupFunction prefix None self))"
    by (auto simp: unregisterLookupFunction_None)
  then show "fst (registerLookupFunction prefix lookup
            (unregisterLookupFunction prefix None self)) = Inr ()"
    by (simp add: registerLookupFunction_absent)
next
  assume "Map_get (lookupFunctions self) prefix = Some l"
  then have "prefix \<notin> fst ` set (lookupFunctions (unregisterLookupFunction prefix (Some l) self))"
    by (auto simp: unregisterLookupFunction_same)
  then show "fst (registerLookupFunction prefix lookup
               (unregisterLookupFunction prefix (Some l) self)) = Inr ()"
    by (simp add: registerLookupFunction_absent)
qed

theorem registerLookupFunction_exclusive_witness:
  "snd (registerLookupFunction (str ''a'') (FnRef 17) example_service) = example_service
   \<and> registerLookupFunction (str ''c'') (FnRef 17) example_service =
       (Inr (), example_service\<lparr>lookupFunctions :=
                  lookupFunctions example_service @ [(str ''c'', FnRef 17)]\<rparr>)
   \<and> distinct (map fst (lookupFunctions example_service))
   \<and> fst (registerLookupFunction (str ''a'') (FnRef 17)
            (unregisterLookupFunction (str ''a'') (Some (FnRef 11)) example_service)) = Inr ()"
proof -
  have present: "str ''a'' \<in> fst ` set (lookupFunctions example_service)"
    by (simp add: example_service_def str_def)
  have absent: "str ''c'' \<notin> fst ` set (lookupFunctions example_service)"
    by (simp add: example_service_def str_def)
  have stored: "Map_get (lookupFunctions example_service) (str ''a'') = Some (FnRef 11)"
    by (simp add: example_service_def str_def)
  note at_a = registerLookupFunction_exclusive
    [of "str ''a''" example_service "FnRef 17" "FnRef 17" "FnRef 11"]
  note at_c = registerLookupFunction_exclusive
    [of "str ''c''" example_service "FnRef 17" "FnRef 17" "FnRef 11"]
  from at_a present have "snd (registerLookupFunction (str ''a'') (FnRef 17) example_service)
      = example_service" by blast
  moreover from at_c absent have "registerLookupFunction (str ''c'') (FnRef 17) example_service =
       (Inr (), example_service\<lparr>lookupFunctions :=
                  lookupFunctions example_service @ [(str ''c'', FnRef 17)]\<rparr>)" by blast
  moreover from at_a reachable_example_service
  have "distinct (map fst (lookupFunctions example_service))" by blast
  moreover from at_a stored have "fst (registerLookupFunction (str ''a'') (FnRef 17)
            (unregisterLookupFunction (str ''a'') (Some (FnRef 11)) example_service)) = Inr ()"
    by blast
  ultimately show ?thesis by simp
qed

text \<open>
  Claim C4. \<open>unregisterLookupFunction\<close> with a resolver that is not the one stored at
  the prefix changes nothing; with the stored resolver, or with no resolver argument,
  it removes the entry of the prefix and keeps every other entry, in order, so that
  the prefix then has no resolver and every other prefix has the one it had; on a
  prefix that is not registered it changes nothing (the function has no failing
  path).
\<close>

theorem unregisterLookupFunction_guarded:
  "(Map_get (lookupFunctions self) prefix \<noteq> Some l \<longrightarrow>
      unregisterLookupFunction prefix (Some l) self = self)
   \<and> (Map_get (lookupFunctions self) prefix = Some l \<longrightarrow>
        unregisterLookupFunction prefix (Some l) self =
          self\<lparr>lookupFunctions := filter (\<lambda>e. fst e \<noteq> prefix) (lookupFunctions self)\<rparr>)
   \<and> unregisterLookupFunction prefix None self =
        self\<lparr>lookupFunctions := filter (\<lambda>e. fst e \<noteq> prefix) (lookupFunctions self)\<rparr>
   \<and> Map_get (filter (\<lambda>e. fst e \<noteq> prefix) (lookupFunctions self)) p =
        (if p = prefix then None else Map_get (lookupFunctions self) p)
   \<and> (prefix \<notin> fst ` set (lookupFunctions self) \<longrightarrow>
        unregisterLookupFunction prefix lookup self = self)"
  by (simp add: unregisterLookupFunction_other unregisterLookupFunction_same
      unregisterLookupFunction_None unregisterLookupFunction_absent Map_get_filter)

theorem unregisterLookupFunction_guarded_witness:
  "unregisterLookupFunction (str ''a'') (Some (FnRef 12)) example_service = example_service
   \<and> unregisterLookupFunction (str ''a'') (Some (FnRef 11)) example_service =
       example_service\<lparr>lookupFunctions := [(str ''b'', FnRef 10), (str ''ab'', FnRef 12)]\<rparr>
   \<and> unregisterLookupFunction (str ''a'') None example_service =
       example_service\<lparr>lookupFunctions := [(str ''b'', FnRef 10), (str ''ab'', FnRef 12)]\<rparr>
   \<and> unregisterLookupFunction (str ''c'') (Some (FnRef 11)) example_service = example_service
   \<and> unregisterLookupFunction (str ''c'') None example_service = example_service"
proof -
  have other: "Map_get (lookupFunctions example_service) (str ''a'') \<noteq> Some (FnRef 12)"
    by (simp add: example_service_def str_def)
  have stored: "Map_get (lookupFunctions example_service) (str ''a'') = Some (FnRef 11)"
    by (simp add: example_service_def str_def)
  have absent: "str ''c'' \<notin> fst ` set (lookupFunctions example_service)"
    by (simp add: example_service_def str_def)
  have rest: "filter (\<lambda>e. fst e \<noteq> str ''a'') (lookupFunctions example_service)
                = [(str ''b'', FnRef 10), (str ''ab'', FnRef 12)]"
    by (simp add: example_service_def str_def)
  from other have "unregisterLookupFunction (str ''a'') (Some (FnRef 12)) example_service
      = example_service"
    using unregisterLookupFunction_guarded [of example_service "str ''a''" "FnRef 12"] by blast
  moreover from stored rest
  have "unregisterLookupFunction (str ''a'') (Some (FnRef 11)) example_service =
       example_service\<lparr>lookupFunctions := [(str ''b'', FnRef 10), (str ''ab'', FnRef 12)]\<rparr>"
    using unregisterLookupFunction_guarded [of example_service "str ''a''" "FnRef 11"] by simp
  moreover from rest
  have "unregisterLookupFunction (str ''a'') None example_service =
       example_service\<lparr>lookupFunctions := [(str ''b'', FnRef 10), (str ''ab'', FnRef 12)]\<rparr>"
    using unregisterLookupFunction_guarded [of example_service "str ''a''" "FnRef 11"] by simp
  moreover from absent
  have "unregisterLookupFunction (str ''c'') (Some (FnRef 11)) example_service = example_service"
    using unregisterLookupFunction_guarded
      [of example_service "str ''c''" "FnRef 11" "str ''c''" "Some (FnRef 11)"] by blast
  moreover from absent
  have "unregisterLookupFunction (str ''c'') None example_service = example_service"
    using unregisterLookupFunction_guarded
      [of example_service "str ''c''" "FnRef 11" "str ''c''" None] by blast
  ultimately show ?thesis by simp
qed

subsection \<open>The outbound flow, path by path\<close>

lemma fetch_connection_failed:
  "openConnection c peer options = Inl e \<Longrightarrow>
   fetch c pf self peer key options = (Inl e, [OpenConnection peer options])"
  by (simp add: fetch_def)

lemma fetch_stream_failed:
  "openConnection c peer options = Inr conn \<Longrightarrow>
   newStream c conn [protocol self] (fetch_signal self options) = Inl e \<Longrightarrow>
   fetch c pf self peer key options =
     (Inl e,
      [OpenConnection peer options]
      @ (case signal options of None \<Rightarrow> [NewTimeoutController (timeout (init self))] | Some s \<Rightarrow> [])
      @ [NewStream conn [protocol self] (fetch_signal self options) (Inl e)]
      @ (case signal options of None \<Rightarrow> [TimeoutClear] | Some s \<Rightarrow> []))"
  by (simp add: fetch_def fetch_try_def fetch_finally_def fetch_timeoutController_def Let_def
      split: option.splits)

lemma fetch_stream_opened:
  "openConnection c peer options = Inr conn \<Longrightarrow>
   newStream c conn [protocol self] (fetch_signal self options) = Inr st \<Longrightarrow>
   fetch c pf self peer key options =
     ((case exchange pf st (fetch_signal self options) (FetchRequest_encode pf \<lparr>identifier = key\<rparr>) of
         Inl e \<Rightarrow> Inl e
       | Inr buf \<Rightarrow> fetch_response pf buf),
      [OpenConnection peer options]
      @ (case signal options of None \<Rightarrow> [NewTimeoutController (timeout (init self))] | Some s \<Rightarrow> [])
      @ [NewStream conn [protocol self] (fetch_signal self options) (Inr st),
         AbortableDuplex st (fetch_signal self options)]
      @ (case signal options of None \<Rightarrow> [TimeoutClear] | Some s \<Rightarrow> [])
      @ [StreamClose st])"
  by (simp add: fetch_def fetch_try_def fetch_finally_def fetch_timeoutController_def Let_def
      split: option.splits sum.splits)


lemma later_Cons:
  "(\<exists>pre post. e # tr = pre @ x # post \<and> y \<in> set post) \<longleftrightarrow>
     (e = x \<and> y \<in> set tr) \<or> (\<exists>pre post. tr = pre @ x # post \<and> y \<in> set post)"
  (is "?L \<longleftrightarrow> ?R")
proof
  assume ?L
  then obtain pre post where eq: "e # tr = pre @ x # post" and y: "y \<in> set post" by blast
  show ?R
  proof (cases pre)
    case Nil
    with eq y show ?thesis by simp
  next
    case (Cons a pre')
    with eq have "tr = pre' @ x # post" by simp
    with y show ?thesis by blast
  qed
next
  assume ?R
  then show ?L
  proof
    assume "e = x \<and> y \<in> set tr"
    then have "e # tr = [] @ x # tr \<and> y \<in> set tr" by simp
    then show ?L by blast
  next
    assume "\<exists>pre post. tr = pre @ x # post \<and> y \<in> set post"
    then obtain pre post where "tr = pre @ x # post" "y \<in> set post" by blast
    then have "e # tr = (e # pre) @ x # post \<and> y \<in> set post" by simp
    then show ?L by blast
  qed
qed

text \<open>The example collaborators, evaluated.\<close>

lemma example_openConnection:
  "openConnection example_components peer options = Inr (Connection 1)"
  by (simp add: example_components_def)

lemma example_newStream:
  "newStream example_components conn ps sg = Inr (Stream 5)"
  by (simp add: example_components_def)

lemma example_exchange:
  "exchange (example_platform reply) st sg req = reply"
  by (simp add: example_platform_def)

lemma example_decode:
  "FetchResponse_decode (example_platform reply) (x # d)
     = Inr \<lparr>status = status_of_byte x, data = d\<rparr>"
  by (simp add: example_platform_def)

lemma example_text_decode:
  "TextDecoder_decode (example_platform reply) d = map ucast d"
  by (simp add: example_platform_def)

lemma example_fetch_signal:
  "fetch_signal example_service \<lparr>signal = None\<rparr> = ControllerSignal (TimeoutController 10000)"
  "fetch_signal example_service \<lparr>signal = Some s\<rparr> = s"
  by (simp_all add: fetch_signal_def example_service_def example_init_def)

lemma example_fetch_without_signal:
  "fetch example_components (example_platform reply) example_service (PeerId 7)
     (str ''user/42'') \<lparr>signal = None\<rparr> =
     ((case reply of Inl e \<Rightarrow> Inl e | Inr buf \<Rightarrow> fetch_response (example_platform reply) buf),
      [OpenConnection (PeerId 7) \<lparr>signal = None\<rparr>,
       NewTimeoutController 10000,
       NewStream (Connection 1) [str ''/libp2p/fetch/0.0.1'']
         (ControllerSignal (TimeoutController 10000)) (Inr (Stream 5)),
       AbortableDuplex (Stream 5) (ControllerSignal (TimeoutController 10000)),
       TimeoutClear,
       StreamClose (Stream 5)])"
  by (simp add: fetch_stream_opened [OF example_openConnection example_newStream]
      example_exchange example_fetch_signal)
     (simp add: example_service_def example_init_def)

lemma example_fetch_with_signal:
  "fetch example_components (example_platform reply) example_service (PeerId 7)
     (str ''user/42'') \<lparr>signal = Some (CallerSignal 4)\<rparr> =
     ((case reply of Inl e \<Rightarrow> Inl e | Inr buf \<Rightarrow> fetch_response (example_platform reply) buf),
      [OpenConnection (PeerId 7) \<lparr>signal = Some (CallerSignal 4)\<rparr>,
       NewStream (Connection 1) [str ''/libp2p/fetch/0.0.1''] (CallerSignal 4) (Inr (Stream 5)),
       AbortableDuplex (Stream 5) (CallerSignal 4),
       StreamClose (Stream 5)])"
  by (simp add: fetch_stream_opened [OF example_openConnection example_newStream]
      example_exchange example_fetch_signal)
     (simp add: example_service_def)

text \<open>
  Claim C2, as amended. When the connection and the stream are open and the exchange
  does not throw: with no response frame before the stream ends, \<open>fetch\<close> fails with
  the code ERR_INVALID_MESSAGE and the message "No data received"; for a decoded
  response, status OK returns its data, status NOT_FOUND returns \<open>null\<close> (no error),
  status ERROR fails with the code ERR_INVALID_PARAMETERS and the message "Error in
  fetch protocol response: " followed by the UTF-8 decoding of its data, and any
  other status fails with the code ERR_INVALID_MESSAGE and the message "Unknown
  response status".
\<close>

theorem fetch_status_mapping:
  assumes conn: "openConnection c peer options = Inr conn"
    and st: "newStream c conn [protocol self] (fetch_signal self options) = Inr st"
    and buf: "exchange pf st (fetch_signal self options)
                (FetchRequest_encode pf \<lparr>identifier = key\<rparr>) = Inr buf"
  shows "(buf = None \<longrightarrow>
            fst (fetch c pf self peer key options)
              = Inl (ErrCode (str ''No data received'') ERR_INVALID_MESSAGE))
       \<and> (buf = Some b \<and> FetchResponse_decode pf b = Inr response \<longrightarrow>
            (status response = OK \<longrightarrow>
               fst (fetch c pf self peer key options) = Inr (Some (data response)))
          \<and> (status response = NOT_FOUND \<longrightarrow>
               fst (fetch c pf self peer key options) = Inr None)
          \<and> (status response = ERROR \<longrightarrow>
               fst (fetch c pf self peer key options)
                 = Inl (ErrCode (str ''Error in fetch protocol response: ''
                                   @ TextDecoder_decode pf (data response))
                          ERR_INVALID_PARAMETERS))
          \<and> (status response \<notin> {OK, NOT_FOUND, ERROR} \<longrightarrow>
               fst (fetch c pf self peer key options)
                 = Inl (ErrCode (str ''Unknown response status'') ERR_INVALID_MESSAGE)))"
proof -
  have "fst (fetch c pf self peer key options) = fetch_response pf buf"
    by (simp add: fetch_stream_opened [OF conn st] buf)
  then show ?thesis
    by (cases "status response") (auto simp: fetch_response_def)
qed


theorem fetch_status_mapping_witness:
  "fst (fetch example_components (example_platform (Inr None)) example_service
          (PeerId 7) (str ''user/42'') \<lparr>signal = None\<rparr>)
     = Inl (ErrCode (str ''No data received'') ERR_INVALID_MESSAGE)
   \<and> fst (fetch example_components (example_platform (Inr (Some [0, 1, 2, 3]))) example_service
          (PeerId 7) (str ''user/42'') \<lparr>signal = None\<rparr>)
     = Inr (Some [1, 2, 3])
   \<and> fst (fetch example_components (example_platform (Inr (Some [1]))) example_service
          (PeerId 7) (str ''user/42'') \<lparr>signal = None\<rparr>)
     = Inr None
   \<and> fst (fetch example_components (example_platform (Inr (Some [2, 111, 104]))) example_service
          (PeerId 7) (str ''user/42'') \<lparr>signal = None\<rparr>)
     = Inl (ErrCode (str ''Error in fetch protocol response: oh'') ERR_INVALID_PARAMETERS)
   \<and> fst (fetch example_components (example_platform (Inr (Some [9]))) example_service
          (PeerId 7) (str ''user/42'') \<lparr>signal = None\<rparr>)
     = Inl (ErrCode (str ''Unknown response status'') ERR_INVALID_MESSAGE)"
proof -
  note at = fetch_status_mapping
    [where c = example_components and self = example_service and peer = "PeerId 7"
       and key = "str ''user/42''" and options = "\<lparr>signal = None\<rparr>"
       and conn = "Connection 1" and st = "Stream 5",
     OF example_openConnection example_newStream example_exchange]
  have "fst (fetch example_components (example_platform (Inr None)) example_service
          (PeerId 7) (str ''user/42'') \<lparr>signal = None\<rparr>)
     = Inl (ErrCode (str ''No data received'') ERR_INVALID_MESSAGE)"
    using at [where buf = None] by simp
  moreover have "fst (fetch example_components (example_platform (Inr (Some [0, 1, 2, 3])))
          example_service (PeerId 7) (str ''user/42'') \<lparr>signal = None\<rparr>)
     = Inr (Some [1, 2, 3])"
    using at [where buf = "Some [0, 1, 2, 3]" and b = "[0, 1, 2, 3]" and response = "\<lparr>status = OK, data = [1, 2, 3]\<rparr>"]
    by (simp add: example_decode)
  moreover have "fst (fetch example_components (example_platform (Inr (Some [1])))
          example_service (PeerId 7) (str ''user/42'') \<lparr>signal = None\<rparr>)
     = Inr None"
    using at [where buf = "Some [1]" and b = "[1]" and response = "\<lparr>status = NOT_FOUND, data = []\<rparr>"]
    by (simp add: example_decode)
  moreover have "fst (fetch example_components (example_platform (Inr (Some [2, 111, 104])))
          example_service (PeerId 7) (str ''user/42'') \<lparr>signal = None\<rparr>)
     = Inl (ErrCode (str ''Error in fetch protocol response: oh'') ERR_INVALID_PARAMETERS)"
    using at [where buf = "Some [2, 111, 104]" and b = "[2, 111, 104]" and response = "\<lparr>status = ERROR, data = [111, 104]\<rparr>"]
    by (simp add: example_decode example_text_decode str_def)
  moreover have "fst (fetch example_components (example_platform (Inr (Some [9])))
          example_service (PeerId 7) (str ''user/42'') \<lparr>signal = None\<rparr>)
     = Inl (ErrCode (str ''Unknown response status'') ERR_INVALID_MESSAGE)"
    using at [where buf = "Some [9]" and b = "[9]" and response = "\<lparr>status = UNRECOGNIZED 9, data = []\<rparr>"]
    by (simp add: example_decode)
  ultimately show ?thesis by simp
qed

text \<open>
  Claim C2, as stated, at the stream that ends with no frame and at a response with
  an unrecognised status: the errors do not carry the messages "no data received"
  and "unknown response status"; the messages of the source begin with a capital
  letter.
\<close>

theorem fetch_error_messages_counterexample:
  "fst (fetch example_components (example_platform (Inr None)) example_service
          (PeerId 7) (str ''user/42'') \<lparr>signal = None\<rparr>)
     \<noteq> Inl (ErrCode (str ''no data received'') ERR_INVALID_MESSAGE)
   \<and> fst (fetch example_components (example_platform (Inr (Some [9]))) example_service
          (PeerId 7) (str ''user/42'') \<lparr>signal = None\<rparr>)
     \<noteq> Inl (ErrCode (str ''unknown response status'') ERR_INVALID_MESSAGE)"
  by (simp add: example_fetch_without_signal fetch_response_def example_decode)
     (simp add: str_def)

text \<open>
  Claim C7. Whatever \<open>fetch\<close> returns or throws, in the events of the call every
  creation of the internal timeout controller is followed by \<open>clear\<close>, and every
  stream that \<open>newStream\<close> returned is followed by \<open>close\<close> of that stream. (When the
  connection fails, neither was created; \<open>clear\<close> and \<open>close\<close> themselves do not
  throw.)
\<close>

theorem fetch_releases_timer_and_stream:
  assumes run: "fetch c pf self peer key options = (r, tr)"
  shows "(NewTimeoutController ms \<in> set tr \<longrightarrow>
            (\<exists>pre post. tr = pre @ NewTimeoutController ms # post \<and> TimeoutClear \<in> set post))
       \<and> (NewStream conn ps sg (Inr st) \<in> set tr \<longrightarrow>
            (\<exists>pre post. tr = pre @ NewStream conn ps sg (Inr st) # post
                         \<and> StreamClose st \<in> set post))"
proof (cases "openConnection c peer options")
  case (Inl e)
  with run show ?thesis by (auto simp: fetch_connection_failed)
next
  case conn: (Inr conn')
  show ?thesis
  proof (cases "newStream c conn' [protocol self] (fetch_signal self options)")
    case (Inl e)
    from fetch_stream_failed [OF conn Inl, of pf key] run
    show ?thesis
      by (cases "signal options") (auto simp: later_Cons)
  next
    case (Inr st')
    from fetch_stream_opened [OF conn Inr, of pf key] run
    show ?thesis
      by (cases "signal options") (auto simp: later_Cons)
  qed
qed

text \<open>
  The exit paths at the example collaborators: the exchange is aborted or fails, the
  remote answers OK, the remote answers NOT_FOUND; on each the controller is cleared
  and the stream closed.
\<close>

theorem fetch_releases_timer_and_stream_witness:
  "fetch example_components (example_platform (Inl (Thrown 3))) example_service (PeerId 7)
     (str ''user/42'') \<lparr>signal = None\<rparr> =
     (Inl (Thrown 3),
      [OpenConnection (PeerId 7) \<lparr>signal = None\<rparr>,
       NewTimeoutController 10000,
       NewStream (Connection 1) [str ''/libp2p/fetch/0.0.1'']
         (ControllerSignal (TimeoutController 10000)) (Inr (Stream 5)),
       AbortableDuplex (Stream 5) (ControllerSignal (TimeoutController 10000)),
       TimeoutClear,
       StreamClose (Stream 5)])
   \<and> (\<exists>pre post.
         snd (fetch example_components (example_platform (Inl (Thrown 3))) example_service
                (PeerId 7) (str ''user/42'') \<lparr>signal = None\<rparr>)
           = pre @ NewTimeoutController 10000 # post
         \<and> TimeoutClear \<in> set post)
   \<and> (\<exists>pre post.
         snd (fetch example_components (example_platform (Inl (Thrown 3))) example_service
                (PeerId 7) (str ''user/42'') \<lparr>signal = None\<rparr>)
           = pre @ NewStream (Connection 1) [str ''/libp2p/fetch/0.0.1'']
                     (ControllerSignal (TimeoutController 10000)) (Inr (Stream 5)) # post
         \<and> StreamClose (Stream 5) \<in> set post)
   \<and> (\<exists>pre post.
         snd (fetch example_components (example_platform (Inr (Some [0, 1, 2, 3])))
                example_service (PeerId 7) (str ''user/42'') \<lparr>signal = None\<rparr>)
           = pre @ NewTimeoutController 10000 # post
         \<and> TimeoutClear \<in> set post)
   \<and> (\<exists>pre post.
         snd (fetch example_components (example_platform (Inr (Some [1])))
                example_service (PeerId 7) (str ''user/42'') \<lparr>signal = Some (CallerSignal 4)\<rparr>)
           = pre @ NewStream (Connection 1) [str ''/libp2p/fetch/0.0.1'']
                     (CallerSignal 4) (Inr (Stream 5)) # post
         \<and> StreamClose (Stream 5) \<in> set post)"
proof -
  let ?aborted = "fetch example_components (example_platform (Inl (Thrown 3))) example_service
     (PeerId 7) (str ''user/42'') \<lparr>signal = None\<rparr>"
  let ?found = "fetch example_components (example_platform (Inr (Some [0, 1, 2, 3])))
     example_service (PeerId 7) (str ''user/42'') \<lparr>signal = None\<rparr>"
  let ?missing = "fetch example_components (example_platform (Inr (Some [1])))
     example_service (PeerId 7) (str ''user/42'') \<lparr>signal = Some (CallerSignal 4)\<rparr>"
  have aborted: "?aborted = (fst ?aborted, snd ?aborted)"
    and found: "?found = (fst ?found, snd ?found)"
    and missing: "?missing = (fst ?missing, snd ?missing)" by simp_all
  have timer1: "NewTimeoutController 10000 \<in> set (snd ?aborted)"
    and stream1: "NewStream (Connection 1) [str ''/libp2p/fetch/0.0.1'']
           (ControllerSignal (TimeoutController 10000)) (Inr (Stream 5)) \<in> set (snd ?aborted)"
    and timer2: "NewTimeoutController 10000 \<in> set (snd ?found)"
    by (simp_all add: example_fetch_without_signal)
  have stream3: "NewStream (Connection 1) [str ''/libp2p/fetch/0.0.1'']
           (CallerSignal 4) (Inr (Stream 5)) \<in> set (snd ?missing)"
    by (simp add: example_fetch_with_signal)
  have "?aborted = (Inl (Thrown 3),
      [OpenConnection (PeerId 7) \<lparr>signal = None\<rparr>,
       NewTimeoutController 10000,
       NewStream (Connection 1) [str ''/libp2p/fetch/0.0.1'']
         (ControllerSignal (TimeoutController 10000)) (Inr (Stream 5)),
       AbortableDuplex (Stream 5) (ControllerSignal (TimeoutController 10000)),
       TimeoutClear,
       StreamClose (Stream 5)])"
    by (simp add: example_fetch_without_signal)
  moreover from timer1 stream1 timer2 stream3
  have "(\<exists>pre post. snd ?aborted = pre @ NewTimeoutController 10000 # post
            \<and> TimeoutClear \<in> set post)"
    and "(\<exists>pre post. snd ?aborted
            = pre @ NewStream (Connection 1) [str ''/libp2p/fetch/0.0.1'']
                      (ControllerSignal (TimeoutController 10000)) (Inr (Stream 5)) # post
            \<and> StreamClose (Stream 5) \<in> set post)"
    and "(\<exists>pre post. snd ?found = pre @ NewTimeoutController 10000 # post
            \<and> TimeoutClear \<in> set post)"
    and "(\<exists>pre post. snd ?missing
            = pre @ NewStream (Connection 1) [str ''/libp2p/fetch/0.0.1'']
                      (CallerSignal 4) (Inr (Stream 5)) # post
            \<and> StreamClose (Stream 5) \<in> set post)"
    using fetch_releases_timer_and_stream [OF aborted] fetch_releases_timer_and_stream [OF found]
      fetch_releases_timer_and_stream [OF missing]
    by blast+
  ultimately show ?thesis by (intro conjI)
qed

text \<open>
  Claim C8. When the caller gives a signal, \<open>fetch\<close> creates no timeout controller
  (and clears none), and the signal passed to \<open>newStream\<close> and to \<open>abortableDuplex\<close>,
  under which the exchange runs, is the caller's. When the caller gives none, the one
  controller created has the configured timeout and the signal passed to both is that
  controller's. Once the connection is open the calls are made: the controller is
  created (with no caller signal), \<open>newStream\<close> is called with the chosen signal, and
  on an open stream the exchange runs under it. Each call receives one signal, the
  caller's or the controller's.
\<close>

theorem fetch_signal_replaces_timeout:
  assumes run: "fetch c pf self peer key options = (r, tr)"
  shows "(signal options = Some s \<longrightarrow>
            fetch_signal self options = s
            \<and> (\<forall>ms. NewTimeoutController ms \<notin> set tr) \<and> TimeoutClear \<notin> set tr
            \<and> (\<forall>conn ps sg res. NewStream conn ps sg res \<in> set tr \<longrightarrow> sg = s)
            \<and> (\<forall>st sg. AbortableDuplex st sg \<in> set tr \<longrightarrow> sg = s))
       \<and> (signal options = None \<longrightarrow>
            fetch_signal self options = ControllerSignal (TimeoutController (timeout (init self)))
            \<and> (\<forall>ms. NewTimeoutController ms \<in> set tr \<longrightarrow> ms = timeout (init self))
            \<and> (\<forall>conn ps sg res. NewStream conn ps sg res \<in> set tr \<longrightarrow>
                  sg = ControllerSignal (TimeoutController (timeout (init self))))
            \<and> (\<forall>st sg. AbortableDuplex st sg \<in> set tr \<longrightarrow>
                  sg = ControllerSignal (TimeoutController (timeout (init self)))))
       \<and> (openConnection c peer options = Inr conn \<longrightarrow>
            (signal options = None \<longrightarrow> NewTimeoutController (timeout (init self)) \<in> set tr)
            \<and> NewStream conn [protocol self] (fetch_signal self options)
                 (newStream c conn [protocol self] (fetch_signal self options)) \<in> set tr
            \<and> (\<forall>st. newStream c conn [protocol self] (fetch_signal self options) = Inr st \<longrightarrow>
                  AbortableDuplex st (fetch_signal self options) \<in> set tr
                  \<and> r = (case exchange pf st (fetch_signal self options)
                                 (FetchRequest_encode pf \<lparr>identifier = key\<rparr>) of
                            Inl e \<Rightarrow> Inl e
                          | Inr buf \<Rightarrow> fetch_response pf buf)))"
proof (cases "openConnection c peer options")
  case (Inl e)
  with run show ?thesis by (auto simp: fetch_connection_failed fetch_signal_def)
next
  case conn: (Inr conn')
  show ?thesis
  proof (cases "newStream c conn' [protocol self] (fetch_signal self options)")
    case (Inl e)
    from fetch_stream_failed [OF conn Inl, of pf key] run conn Inl
    show ?thesis
      by (cases "signal options") (auto simp: fetch_signal_def)
  next
    case (Inr st')
    from fetch_stream_opened [OF conn Inr, of pf key] run conn Inr
    show ?thesis
      by (cases "signal options") (auto simp: fetch_signal_def)
  qed
qed

theorem fetch_signal_replaces_timeout_witness:
  "fetch example_components (example_platform (Inr (Some [0, 1, 2, 3]))) example_service
     (PeerId 7) (str ''user/42'') \<lparr>signal = Some (CallerSignal 4)\<rparr> =
     (Inr (Some [1, 2, 3]),
      [OpenConnection (PeerId 7) \<lparr>signal = Some (CallerSignal 4)\<rparr>,
       NewStream (Connection 1) [str ''/libp2p/fetch/0.0.1''] (CallerSignal 4) (Inr (Stream 5)),
       AbortableDuplex (Stream 5) (CallerSignal 4),
       StreamClose (Stream 5)])
   \<and> TimeoutClear \<notin> set (snd (fetch example_components
         (example_platform (Inr (Some [0, 1, 2, 3]))) example_service
         (PeerId 7) (str ''user/42'') \<lparr>signal = Some (CallerSignal 4)\<rparr>))
   \<and> (\<forall>ms. NewTimeoutController ms \<notin> set (snd (fetch example_components
         (example_platform (Inr (Some [0, 1, 2, 3]))) example_service
         (PeerId 7) (str ''user/42'') \<lparr>signal = Some (CallerSignal 4)\<rparr>)))
   \<and> AbortableDuplex (Stream 5) (CallerSignal 4) \<in> set (snd (fetch example_components
         (example_platform (Inr (Some [0, 1, 2, 3]))) example_service
         (PeerId 7) (str ''user/42'') \<lparr>signal = Some (CallerSignal 4)\<rparr>))
   \<and> NewTimeoutController 10000 \<in> set (snd (fetch example_components
         (example_platform (Inr (Some [0, 1, 2, 3]))) example_service
         (PeerId 7) (str ''user/42'') \<lparr>signal = None\<rparr>))
   \<and> AbortableDuplex (Stream 5) (ControllerSignal (TimeoutController 10000))
         \<in> set (snd (fetch example_components
         (example_platform (Inr (Some [0, 1, 2, 3]))) example_service
         (PeerId 7) (str ''user/42'') \<lparr>signal = None\<rparr>))"
proof -
  let ?given = "fetch example_components (example_platform (Inr (Some [0, 1, 2, 3])))
     example_service (PeerId 7) (str ''user/42'') \<lparr>signal = Some (CallerSignal 4)\<rparr>"
  let ?absent = "fetch example_components (example_platform (Inr (Some [0, 1, 2, 3])))
     example_service (PeerId 7) (str ''user/42'') \<lparr>signal = None\<rparr>"
  have given: "?given = (fst ?given, snd ?given)"
    and absent: "?absent = (fst ?absent, snd ?absent)" by simp_all
  have sg: "signal \<lparr>signal = Some (CallerSignal 4)\<rparr> = Some (CallerSignal 4)"
    and no_sg: "signal \<lparr>signal = None\<rparr> = None" by simp_all
  note with_signal = fetch_signal_replaces_timeout
    [OF given, where s = "CallerSignal 4" and conn = "Connection 1"]
  note without_signal = fetch_signal_replaces_timeout
    [OF absent, where s = "CallerSignal 4" and conn = "Connection 1"]
  have "?given = (Inr (Some [1, 2, 3]),
      [OpenConnection (PeerId 7) \<lparr>signal = Some (CallerSignal 4)\<rparr>,
       NewStream (Connection 1) [str ''/libp2p/fetch/0.0.1''] (CallerSignal 4) (Inr (Stream 5)),
       AbortableDuplex (Stream 5) (CallerSignal 4),
       StreamClose (Stream 5)])"
    by (simp add: example_fetch_with_signal fetch_response_def example_decode)
  moreover from with_signal sg have "TimeoutClear \<notin> set (snd ?given)"
    and "\<forall>ms. NewTimeoutController ms \<notin> set (snd ?given)" by blast+
  moreover from with_signal sg
  have "AbortableDuplex (Stream 5) (CallerSignal 4) \<in> set (snd ?given)"
    by (simp add: example_openConnection example_newStream example_fetch_signal)
  moreover from without_signal no_sg
  have "NewTimeoutController 10000 \<in> set (snd ?absent)"
    by (simp add: example_openConnection example_service_def example_init_def)
  moreover from without_signal no_sg
  have "AbortableDuplex (Stream 5) (ControllerSignal (TimeoutController 10000))
          \<in> set (snd ?absent)"
    by (simp add: example_openConnection example_newStream example_fetch_signal)
  ultimately show ?thesis by (intro conjI)
qed

text \<open>
  Claim C10. The first thing \<open>fetch\<close> does is \<open>openConnection\<close> with the peer and the
  caller's own options, and it does so once; everything else comes after it. A
  timeout controller is created only when the caller gave no signal; it is then
  created right after the connection is open, with the configured timeout, and its
  signal is the one passed to \<open>newStream\<close> and to \<open>abortableDuplex\<close>, under which the
  exchange runs, and to nothing else (with a caller signal, no controller is
  created and those calls get the caller's). When opening the connection fails,
  \<open>fetch\<close> fails with that error having made no controller, and the outcome is the
  same for a service with any other configuration, so that the configured timeout
  has no part in the connection step.
\<close>

theorem fetch_connection_before_timeout:
  assumes run: "fetch c pf self peer key options = (r, tr)"
  shows "(\<exists>rest. tr = OpenConnection peer options # rest
                 \<and> (\<forall>p opts. OpenConnection p opts \<notin> set rest)
                 \<and> (openConnection c peer options = Inr conn \<and> signal options = None \<longrightarrow>
                      NewTimeoutController (timeout (init self)) \<in> set rest)
                 \<and> (signal options = Some s \<longrightarrow>
                      (\<forall>ms. NewTimeoutController ms \<notin> set rest)
                      \<and> (\<forall>conn' ps sg res. NewStream conn' ps sg res \<in> set rest \<longrightarrow> sg = s)
                      \<and> (\<forall>st' sg. AbortableDuplex st' sg \<in> set rest \<longrightarrow> sg = s))
                 \<and> (signal options = None \<longrightarrow>
                      (\<forall>ms. NewTimeoutController ms \<in> set rest \<longrightarrow> ms = timeout (init self))
                      \<and> (\<forall>conn' ps sg res. NewStream conn' ps sg res \<in> set rest \<longrightarrow>
                            sg = ControllerSignal (TimeoutController (timeout (init self))))
                      \<and> (\<forall>st' sg. AbortableDuplex st' sg \<in> set rest \<longrightarrow>
                            sg = ControllerSignal (TimeoutController (timeout (init self)))))
                 \<and> (openConnection c peer options = Inr conn \<and> signal options = None \<longrightarrow>
                      (\<exists>later. rest =
                         NewTimeoutController (timeout (init self))
                         # NewStream conn [protocol self]
                             (ControllerSignal (TimeoutController (timeout (init self))))
                             (newStream c conn [protocol self]
                                (ControllerSignal (TimeoutController (timeout (init self)))))
                         # later)
                      \<and> (\<forall>st. newStream c conn [protocol self]
                                 (ControllerSignal (TimeoutController (timeout (init self))))
                               = Inr st \<longrightarrow>
                             AbortableDuplex st
                               (ControllerSignal (TimeoutController (timeout (init self))))
                               \<in> set rest
                             \<and> r = (case exchange pf st
                                           (ControllerSignal (TimeoutController (timeout (init self))))
                                           (FetchRequest_encode pf \<lparr>identifier = key\<rparr>) of
                                      Inl e \<Rightarrow> Inl e
                                    | Inr buf \<Rightarrow> fetch_response pf buf))))
       \<and> (openConnection c peer options = Inl e \<longrightarrow>
            r = Inl e \<and> tr = [OpenConnection peer options]
            \<and> fetch c pf self' peer key options = (r, tr))"
proof (cases "openConnection c peer options")
  case (Inl e')
  with run show ?thesis by (auto simp: fetch_connection_failed)
next
  case conn: (Inr conn')
  show ?thesis
  proof (cases "newStream c conn' [protocol self] (fetch_signal self options)")
    case (Inl e')
    from fetch_stream_failed [OF conn Inl, of pf key] run conn Inl
    show ?thesis
      by (cases "signal options") (auto simp: fetch_signal_def)
  next
    case (Inr st')
    from fetch_stream_opened [OF conn Inr, of pf key] run conn Inr
    show ?thesis
      by (cases "signal options") (auto simp: fetch_signal_def)
  qed
qed

theorem fetch_connection_before_timeout_witness:
  "fetch (example_components\<lparr>openConnection := (\<lambda>peer opts. Inl (Thrown 1))\<rparr>)
     (example_platform (Inr None)) example_service (PeerId 7) (str ''user/42'')
     \<lparr>signal = None\<rparr>
     = (Inl (Thrown 1), [OpenConnection (PeerId 7) \<lparr>signal = None\<rparr>])
   \<and> fetch (example_components\<lparr>openConnection := (\<lambda>peer opts. Inl (Thrown 1))\<rparr>)
     (example_platform (Inr None))
     (example_service\<lparr>init := example_init\<lparr>timeout := 1\<rparr>\<rparr>) (PeerId 7) (str ''user/42'')
     \<lparr>signal = None\<rparr>
     = (Inl (Thrown 1), [OpenConnection (PeerId 7) \<lparr>signal = None\<rparr>])
   \<and> (\<exists>rest. snd (fetch example_components (example_platform (Inr None)) example_service
                     (PeerId 7) (str ''user/42'') \<lparr>signal = None\<rparr>)
                = OpenConnection (PeerId 7) \<lparr>signal = None\<rparr> # rest
              \<and> NewTimeoutController 10000 \<in> set rest)
   \<and> (\<exists>later. snd (fetch example_components (example_platform (Inr None)) example_service
                     (PeerId 7) (str ''user/42'') \<lparr>signal = None\<rparr>)
                = OpenConnection (PeerId 7) \<lparr>signal = None\<rparr>
                  # NewTimeoutController 10000
                  # NewStream (Connection 1) [str ''/libp2p/fetch/0.0.1'']
                      (ControllerSignal (TimeoutController 10000)) (Inr (Stream 5))
                  # later
              \<and> AbortableDuplex (Stream 5) (ControllerSignal (TimeoutController 10000))
                  \<in> set later)
   \<and> (\<forall>ms. NewTimeoutController ms
         \<notin> set (snd (fetch example_components (example_platform (Inr None)) example_service
                        (PeerId 7) (str ''user/42'') \<lparr>signal = Some (CallerSignal 4)\<rparr>)))"
proof -
  let ?c = "example_components\<lparr>openConnection := (\<lambda>peer opts. Inl (Thrown 1))\<rparr>"
  let ?refused = "fetch ?c (example_platform (Inr None)) example_service (PeerId 7)
     (str ''user/42'') \<lparr>signal = None\<rparr>"
  let ?opened = "fetch example_components (example_platform (Inr None)) example_service
     (PeerId 7) (str ''user/42'') \<lparr>signal = None\<rparr>"
  let ?given = "fetch example_components (example_platform (Inr None)) example_service
     (PeerId 7) (str ''user/42'') \<lparr>signal = Some (CallerSignal 4)\<rparr>"
  have refused: "?refused = (fst ?refused, snd ?refused)"
    and opened: "?opened = (fst ?opened, snd ?opened)"
    and given: "?given = (fst ?given, snd ?given)" by simp_all
  have fails: "openConnection ?c (PeerId 7) \<lparr>signal = None\<rparr> = Inl (Thrown 1)" by simp
  have opens: "openConnection example_components (PeerId 7) \<lparr>signal = None\<rparr>
                 = Inr (Connection 1) \<and> signal \<lparr>signal = None\<rparr> = None"
    by (simp add: example_openConnection)
  have stream: "newStream example_components (Connection 1) [protocol example_service]
                  (ControllerSignal (TimeoutController (timeout (init example_service))))
                = Inr (Stream 5)"
    by (simp add: example_newStream)
  have caller: "signal \<lparr>signal = Some (CallerSignal 4)\<rparr> = Some (CallerSignal 4)" by simp
  have ms: "timeout (init example_service) = 10000"
    and proto: "protocol example_service = str ''/libp2p/fetch/0.0.1''"
    by (simp_all add: example_service_def example_init_def)
  note at_refused = fetch_connection_before_timeout
    [OF refused, where e = "Thrown 1"
       and self' = "example_service\<lparr>init := example_init\<lparr>timeout := 1\<rparr>\<rparr>"]
  note at_opened = fetch_connection_before_timeout
    [OF opened, where conn = "Connection 1" and s = "CallerSignal 4" and e = "Thrown 1"
       and self' = example_service]
  note at_given = fetch_connection_before_timeout
    [OF given, where s = "CallerSignal 4" and conn = "Connection 1" and e = "Thrown 1"
       and self' = example_service]
  from at_refused fails
  have "fst ?refused = Inl (Thrown 1)"
    and "snd ?refused = [OpenConnection (PeerId 7) \<lparr>signal = None\<rparr>]"
    and "fetch ?c (example_platform (Inr None))
           (example_service\<lparr>init := example_init\<lparr>timeout := 1\<rparr>\<rparr>) (PeerId 7)
           (str ''user/42'') \<lparr>signal = None\<rparr> = (fst ?refused, snd ?refused)"
    by blast+
  then have "?refused = (Inl (Thrown 1), [OpenConnection (PeerId 7) \<lparr>signal = None\<rparr>])"
    and "fetch ?c (example_platform (Inr None))
           (example_service\<lparr>init := example_init\<lparr>timeout := 1\<rparr>\<rparr>) (PeerId 7)
           (str ''user/42'') \<lparr>signal = None\<rparr>
         = (Inl (Thrown 1), [OpenConnection (PeerId 7) \<lparr>signal = None\<rparr>])"
    by (simp_all add: prod_eq_iff)
  moreover from at_opened opens
  obtain rest where rest: "snd ?opened = OpenConnection (PeerId 7) \<lparr>signal = None\<rparr> # rest"
    and timer: "NewTimeoutController (timeout (init example_service)) \<in> set rest"
    and order: "\<exists>later. rest =
                  NewTimeoutController (timeout (init example_service))
                  # NewStream (Connection 1) [protocol example_service]
                      (ControllerSignal (TimeoutController (timeout (init example_service))))
                      (newStream example_components (Connection 1) [protocol example_service]
                         (ControllerSignal (TimeoutController (timeout (init example_service)))))
                  # later"
    and duplex: "AbortableDuplex (Stream 5)
                   (ControllerSignal (TimeoutController (timeout (init example_service))))
                   \<in> set rest"
    using stream by blast
  from rest timer
  have "\<exists>rest. snd ?opened = OpenConnection (PeerId 7) \<lparr>signal = None\<rparr> # rest
              \<and> NewTimeoutController 10000 \<in> set rest"
    by (simp add: ms)
  moreover from rest order duplex
  have "\<exists>later. snd ?opened
                = OpenConnection (PeerId 7) \<lparr>signal = None\<rparr>
                  # NewTimeoutController 10000
                  # NewStream (Connection 1) [str ''/libp2p/fetch/0.0.1'']
                      (ControllerSignal (TimeoutController 10000)) (Inr (Stream 5))
                  # later
              \<and> AbortableDuplex (Stream 5) (ControllerSignal (TimeoutController 10000))
                  \<in> set later"
    by (auto simp: ms proto stream example_newStream)
  moreover from at_given caller
  obtain rest' where "snd ?given
        = OpenConnection (PeerId 7) \<lparr>signal = Some (CallerSignal 4)\<rparr> # rest'"
    and "\<forall>ms. NewTimeoutController ms \<notin> set rest'"
    by blast
  then have "\<forall>ms. NewTimeoutController ms \<notin> set (snd ?given)" by simp
  ultimately show ?thesis by (intro conjI)
qed

subsection \<open>The inbound flow\<close>

lemma example_resolve:
  "getLookupFunction example_service (str ''abc'') = Some (FnRef 11)"
  "getLookupFunction example_service (str ''b'') = Some (FnRef 10)"
  "getLookupFunction example_service (str ''zz'') = None"
  "getLookupFunction (example_service\<lparr>lookupFunctions := [(str ''x'', FnRef 12)]\<rparr>) (str ''x1'')
     = Some (FnRef 12)"
  by (simp_all add: getLookupFunction_def Map_keys_def example_service_def str_def)

lemma example_call:
  "call (example_platform reply) (FnRef 11) key = Inr (Some [1, 2, 3])"
  "call (example_platform reply) (FnRef 10) key = Inr None"
  "call (example_platform reply) (FnRef 12) key = Inl (Thrown 9)"
  by (simp_all add: example_platform_def)

lemma example_receive:
  "receive (example_platform reply) st = reply"
  "FetchRequest_decode (example_platform reply) b = Inr \<lparr>identifier = map ucast b\<rparr>"
  "FetchResponse_encode (example_platform reply) response
     = byte_of_status (status response) # data response"
  "TextEncoder_encode (example_platform reply) s = map ucast s"
  "sink (example_platform reply) st frames = Inr ()"
  "sink_failed (example_platform reply) st e = Inl e"
  by (simp_all add: example_platform_def)

lemma start_handler_closes: "\<exists>evs. start_handler pf self st = evs @ [StreamClose st]
     \<and> StreamClose st \<notin> set evs"
proof (cases "handleMessage pf self st")
  case (Pair r evs)
  have "StreamClose st \<notin> set evs"
    using Pair by (auto simp: handleMessage_def split: sum.splits)
  with Pair show ?thesis
    by (cases r) (auto simp: start_handler_def)
qed

text \<open>
  Claim C5. For a decoded request: when no resolver matches the identifier, the
  response is ERROR with the UTF-8 encoding of "No lookup function registered for
  key: " followed by the identifier as data; when the matched resolver returns a
  value, the response is OK with that value; when it returns \<open>null\<close>, the response is
  NOT_FOUND with empty data. The generator yields the encoding of that one response
  and nothing else, and it is what \<open>handleMessage\<close> hands to the stream.
\<close>

theorem handleMessage_builds_one_response:
  "(getLookupFunction self (identifier request) = None \<longrightarrow>
      handleMessage_response pf self request =
        Inr \<lparr>status = ERROR,
             data = TextEncoder_encode pf
                      (str ''No lookup function registered for key: '' @ identifier request)\<rparr>)
   \<and> (getLookupFunction self (identifier request) = Some lookup
        \<and> call pf lookup (identifier request) = Inr (Some v) \<longrightarrow>
        handleMessage_response pf self request = Inr \<lparr>status = OK, data = v\<rparr>)
   \<and> (getLookupFunction self (identifier request) = Some lookup
        \<and> call pf lookup (identifier request) = Inr None \<longrightarrow>
        handleMessage_response pf self request = Inr \<lparr>status = NOT_FOUND, data = []\<rparr>)
   \<and> (receive pf st = Inr (Some b) \<and> FetchRequest_decode pf b = Inr request
        \<and> handleMessage_response pf self request = Inr response \<longrightarrow>
        handleMessage_generator pf self (Some b) = Inr [FetchResponse_encode pf response]
        \<and> handleMessage pf self st =
            (sink pf st [FetchResponse_encode pf response],
             [StreamSink st [FetchResponse_encode pf response]]))"
  by (simp add: handleMessage_response_def handleMessage_generator_def handleMessage_def)


theorem handleMessage_builds_one_response_witness:
  "handleMessage_response (example_platform (Inr None)) example_service
      \<lparr>identifier = str ''abc''\<rparr> = Inr \<lparr>status = OK, data = [1, 2, 3]\<rparr>
   \<and> handleMessage_response (example_platform (Inr None)) example_service
      \<lparr>identifier = str ''b''\<rparr> = Inr \<lparr>status = NOT_FOUND, data = []\<rparr>
   \<and> handleMessage_response (example_platform (Inr None)) example_service
      \<lparr>identifier = str ''zz''\<rparr>
      = Inr \<lparr>status = ERROR,
             data = map ucast (str ''No lookup function registered for key: zz'')\<rparr>
   \<and> handleMessage (example_platform (Inr (Some [97, 98, 99]))) example_service (Stream 5)
      = (Inr (), [StreamSink (Stream 5) [[0, 1, 2, 3]]])"
proof -
  let ?pf = "example_platform (Inr None)"
  let ?pf' = "example_platform (Inr (Some [97, 98, 99]))"
  have resolved:
    "getLookupFunction example_service (identifier \<lparr>identifier = str ''abc''\<rparr>)
       = Some (FnRef 11)
     \<and> call ?pf (FnRef 11) (identifier \<lparr>identifier = str ''abc''\<rparr>) = Inr (Some [1, 2, 3])"
    "getLookupFunction example_service (identifier \<lparr>identifier = str ''b''\<rparr>)
       = Some (FnRef 10)
     \<and> call ?pf (FnRef 10) (identifier \<lparr>identifier = str ''b''\<rparr>) = Inr None"
    "getLookupFunction example_service (identifier \<lparr>identifier = str ''zz''\<rparr>) = None"
    by (simp_all add: example_resolve example_call)
  have encoded: "TextEncoder_encode ?pf (str ''No lookup function registered for key: '' @ str ''zz'')
         = map ucast (str ''No lookup function registered for key: zz'')"
    by (simp add: example_receive str_def)
  have "handleMessage_response ?pf example_service \<lparr>identifier = str ''abc''\<rparr>
          = Inr \<lparr>status = OK, data = [1, 2, 3]\<rparr>"
    using resolved(1) handleMessage_builds_one_response
      [where self = example_service and request = "\<lparr>identifier = str ''abc''\<rparr>"
         and pf = ?pf and lookup = "FnRef 11" and v = "[1, 2, 3]"]
    by blast
  moreover
  have "handleMessage_response ?pf example_service \<lparr>identifier = str ''b''\<rparr>
          = Inr \<lparr>status = NOT_FOUND, data = []\<rparr>"
    using resolved(2) handleMessage_builds_one_response
      [where self = example_service and request = "\<lparr>identifier = str ''b''\<rparr>"
         and pf = ?pf and lookup = "FnRef 10"]
    by blast
  moreover
  have "handleMessage_response ?pf example_service \<lparr>identifier = str ''zz''\<rparr>
          = Inr \<lparr>status = ERROR,
                 data = TextEncoder_encode ?pf
                   (str ''No lookup function registered for key: ''
                      @ identifier \<lparr>identifier = str ''zz''\<rparr>)\<rparr>"
    using resolved(3) handleMessage_builds_one_response
      [where self = example_service and request = "\<lparr>identifier = str ''zz''\<rparr>"
         and pf = ?pf]
    by blast
  moreover
  have received: "receive ?pf' (Stream 5) = Inr (Some [97, 98, 99])
      \<and> FetchRequest_decode ?pf' [97, 98, 99] = Inr \<lparr>identifier = str ''abc''\<rparr>"
    by (simp add: example_receive str_def)
  have built: "handleMessage_response ?pf' example_service \<lparr>identifier = str ''abc''\<rparr>
          = Inr \<lparr>status = OK, data = [1, 2, 3]\<rparr>"
    by (simp add: handleMessage_response_def example_resolve example_call)
  have frame: "FetchResponse_encode ?pf' \<lparr>status = OK, data = [1, 2, 3]\<rparr> = [0, 1, 2, 3]"
    and sunk: "sink ?pf' (Stream 5) [[0, 1, 2, 3]] = Inr ()"
    by (simp_all add: example_receive)
  have "handleMessage ?pf' example_service (Stream 5)
          = (sink ?pf' (Stream 5)
               [FetchResponse_encode ?pf' \<lparr>status = OK, data = [1, 2, 3]\<rparr>],
             [StreamSink (Stream 5)
               [FetchResponse_encode ?pf' \<lparr>status = OK, data = [1, 2, 3]\<rparr>]])"
    using received built handleMessage_builds_one_response
      [where self = example_service and request = "\<lparr>identifier = str ''abc''\<rparr>"
         and pf = ?pf' and st = "Stream 5" and b = "[97, 98, 99]"
         and response = "\<lparr>status = OK, data = [1, 2, 3]\<rparr>"]
    by blast
  ultimately show ?thesis by (simp add: encoded frame sunk)
qed

text \<open>
  Claim C6, as amended. When the matched resolver throws, \<open>handleMessage\<close> neither
  catches the error nor turns it into an ERROR response: the generator throws it
  without yielding, no frame is handed to the stream, and the error reaches the
  stream's sink as the failure of its source, so that the outcome of \<open>handleMessage\<close>
  is the outcome of the sink. When the sink rejects with the error of its source,
  \<open>handleMessage\<close> fails with the resolver's error, and the handler installed by
  \<open>start\<close> logs it and closes the stream. (When no resolver matches, by contrast, an
  ERROR response is handed to the stream.) On every outcome of \<open>handleMessage\<close> the
  last thing the handler does is to close the stream, once.
\<close>

theorem handleMessage_resolver_failure_reaches_sink:
  "(receive pf st = Inr (Some b) \<and> FetchRequest_decode pf b = Inr request
      \<and> getLookupFunction self (identifier request) = Some lookup
      \<and> call pf lookup (identifier request) = Inl e \<longrightarrow>
      handleMessage_response pf self request = Inl e
      \<and> handleMessage_generator pf self (Some b) = Inl e
      \<and> handleMessage pf self st = (sink_failed pf st e, [])
      \<and> (sink_failed pf st e = Inl e \<longrightarrow>
            handleMessage pf self st = (Inl e, [])
            \<and> start_handler pf self st = [LogError e, StreamClose st])
      \<and> (sink_failed pf st e = Inl e' \<longrightarrow>
            start_handler pf self st = [LogError e', StreamClose st])
      \<and> (sink_failed pf st e = Inr () \<longrightarrow> start_handler pf self st = [StreamClose st]))
   \<and> (receive pf st = Inr (Some b) \<and> FetchRequest_decode pf b = Inr request
      \<and> getLookupFunction self (identifier request) = None \<longrightarrow>
      snd (handleMessage pf self st) =
        [StreamSink st [FetchResponse_encode pf
           \<lparr>status = ERROR,
            data = TextEncoder_encode pf
                     (str ''No lookup function registered for key: '' @ identifier request)\<rparr>]])
   \<and> (\<exists>evs. start_handler pf self st = evs @ [StreamClose st] \<and> StreamClose st \<notin> set evs)"
  using start_handler_closes [of pf self st]
  by (auto simp: handleMessage_response_def handleMessage_generator_def handleMessage_def
      start_handler_def)

theorem handleMessage_resolver_failure_reaches_sink_witness:
  "handleMessage (example_platform (Inr (Some [120, 49])))
      (example_service\<lparr>lookupFunctions := [(str ''x'', FnRef 12)]\<rparr>) (Stream 5)
      = (Inl (Thrown 9), [])
   \<and> start_handler (example_platform (Inr (Some [120, 49])))
      (example_service\<lparr>lookupFunctions := [(str ''x'', FnRef 12)]\<rparr>) (Stream 5)
      = [LogError (Thrown 9), StreamClose (Stream 5)]
   \<and> start_handler ((example_platform (Inr (Some [120, 49])))\<lparr>sink_failed := (\<lambda>st e. Inr ())\<rparr>)
      (example_service\<lparr>lookupFunctions := [(str ''x'', FnRef 12)]\<rparr>) (Stream 5)
      = [StreamClose (Stream 5)]
   \<and> snd (handleMessage (example_platform (Inr (Some [122, 122]))) example_service (Stream 5))
      = [StreamSink (Stream 5)
           [2 # map ucast (str ''No lookup function registered for key: zz'')]]"
proof -
  let ?pf = "example_platform (Inr (Some [120, 49]))"
  let ?quiet = "?pf\<lparr>sink_failed := (\<lambda>st e. Inr ())\<rparr>"
  let ?pf' = "example_platform (Inr (Some [122, 122]))"
  let ?self = "example_service\<lparr>lookupFunctions := [(str ''x'', FnRef 12)]\<rparr>"
  have throwing:
    "receive ?pf (Stream 5) = Inr (Some [120, 49])
     \<and> FetchRequest_decode ?pf [120, 49] = Inr \<lparr>identifier = str ''x1''\<rparr>
     \<and> getLookupFunction ?self (identifier \<lparr>identifier = str ''x1''\<rparr>) = Some (FnRef 12)
     \<and> call ?pf (FnRef 12) (identifier \<lparr>identifier = str ''x1''\<rparr>) = Inl (Thrown 9)"
    by (simp add: example_receive example_resolve example_call) (simp add: str_def)
  have rethrown: "sink_failed ?pf (Stream 5) (Thrown 9) = Inl (Thrown 9)"
    by (simp add: example_receive)
  have throwing_quiet:
    "receive ?quiet (Stream 5) = Inr (Some [120, 49])
     \<and> FetchRequest_decode ?quiet [120, 49] = Inr \<lparr>identifier = str ''x1''\<rparr>
     \<and> getLookupFunction ?self (identifier \<lparr>identifier = str ''x1''\<rparr>) = Some (FnRef 12)
     \<and> call ?quiet (FnRef 12) (identifier \<lparr>identifier = str ''x1''\<rparr>) = Inl (Thrown 9)"
    by (simp add: example_receive example_resolve example_call) (simp add: str_def)
  have swallowed: "sink_failed ?quiet (Stream 5) (Thrown 9) = Inr ()" by simp
  have unmatched:
    "receive ?pf' (Stream 5) = Inr (Some [122, 122])
     \<and> FetchRequest_decode ?pf' [122, 122] = Inr \<lparr>identifier = str ''zz''\<rparr>
     \<and> getLookupFunction example_service (identifier \<lparr>identifier = str ''zz''\<rparr>) = None"
    by (simp add: example_receive example_resolve) (simp add: str_def)
  have frame: "FetchResponse_encode ?pf'
           \<lparr>status = ERROR,
            data = TextEncoder_encode ?pf'
                     (str ''No lookup function registered for key: '' @ str ''zz'')\<rparr>
         = 2 # map ucast (str ''No lookup function registered for key: zz'')"
    by (simp add: example_receive str_def)
  have "handleMessage ?pf ?self (Stream 5) = (Inl (Thrown 9), [])
        \<and> start_handler ?pf ?self (Stream 5) = [LogError (Thrown 9), StreamClose (Stream 5)]"
    using throwing rethrown handleMessage_resolver_failure_reaches_sink
      [where pf = ?pf and self = ?self and st = "Stream 5" and b = "[120, 49]"
         and request = "\<lparr>identifier = str ''x1''\<rparr>" and lookup = "FnRef 12"
         and e = "Thrown 9"]
    by blast
  moreover
  have "start_handler ?quiet ?self (Stream 5) = [StreamClose (Stream 5)]"
    using throwing_quiet swallowed handleMessage_resolver_failure_reaches_sink
      [where pf = ?quiet and self = ?self and st = "Stream 5" and b = "[120, 49]"
         and request = "\<lparr>identifier = str ''x1''\<rparr>" and lookup = "FnRef 12"
         and e = "Thrown 9"]
    by blast
  moreover
  have "snd (handleMessage ?pf' example_service (Stream 5))
      = [StreamSink (Stream 5) [FetchResponse_encode ?pf'
           \<lparr>status = ERROR,
            data = TextEncoder_encode ?pf'
                     (str ''No lookup function registered for key: ''
                        @ identifier \<lparr>identifier = str ''zz''\<rparr>)\<rparr>]]"
    using unmatched handleMessage_resolver_failure_reaches_sink
      [where pf = ?pf' and self = example_service and st = "Stream 5" and b = "[122, 122]"
         and request = "\<lparr>identifier = str ''zz''\<rparr>"]
    by blast
  ultimately show ?thesis by (simp add: frame)
qed

text \<open>
  Claim C6, as stated, at a stream whose sink resolves although its source threw:
  the request "x1" is decoded, its resolver throws, and \<open>handleMessage\<close> returns
  without an error, so that the failure does not leave \<open>handleMessage\<close> and nothing
  is logged.
\<close>

theorem handleMessage_failure_swallowed_counterexample:
  "receive ((example_platform (Inr (Some [120, 49])))\<lparr>sink_failed := (\<lambda>st e. Inr ())\<rparr>)
      (Stream 5) = Inr (Some [120, 49])
   \<and> FetchRequest_decode
       ((example_platform (Inr (Some [120, 49])))\<lparr>sink_failed := (\<lambda>st e. Inr ())\<rparr>)
       [120, 49] = Inr \<lparr>identifier = str ''x1''\<rparr>
   \<and> getLookupFunction (example_service\<lparr>lookupFunctions := [(str ''x'', FnRef 12)]\<rparr>)
       (str ''x1'') = Some (FnRef 12)
   \<and> call ((example_platform (Inr (Some [120, 49])))\<lparr>sink_failed := (\<lambda>st e. Inr ())\<rparr>)
       (FnRef 12) (str ''x1'') = Inl (Thrown 9)
   \<and> handleMessage
       ((example_platform (Inr (Some [120, 49])))\<lparr>sink_failed := (\<lambda>st e. Inr ())\<rparr>)
       (example_service\<lparr>lookupFunctions := [(str ''x'', FnRef 12)]\<rparr>) (Stream 5)
       = (Inr (), [])
   \<and> start_handler
       ((example_platform (Inr (Some [120, 49])))\<lparr>sink_failed := (\<lambda>st e. Inr ())\<rparr>)
       (example_service\<lparr>lookupFunctions := [(str ''x'', FnRef 12)]\<rparr>) (Stream 5)
       = [StreamClose (Stream 5)]"
proof -
  let ?quiet = "(example_platform (Inr (Some [120, 49])))\<lparr>sink_failed := (\<lambda>st e. Inr ())\<rparr>"
  let ?self = "example_service\<lparr>lookupFunctions := [(str ''x'', FnRef 12)]\<rparr>"
  have decoded: "receive ?quiet (Stream 5) = Inr (Some [120, 49])
      \<and> FetchRequest_decode ?quiet [120, 49] = Inr \<lparr>identifier = str ''x1''\<rparr>"
    by (simp add: example_receive) (simp add: str_def)
  have resolved: "getLookupFunction ?self (str ''x1'') = Some (FnRef 12)
      \<and> call ?quiet (FnRef 12) (str ''x1'') = Inl (Thrown 9)"
    by (simp add: example_resolve example_call)
  have run: "handleMessage ?quiet ?self (Stream 5) = (Inr (), [])"
    using decoded resolved
    by (simp add: handleMessage_def handleMessage_generator_def handleMessage_response_def)
  then have "start_handler ?quiet ?self (Stream 5) = [StreamClose (Stream 5)]"
    by (simp add: start_handler_def)
  with decoded resolved run show ?thesis by simp
qed

subsection \<open>Lifecycle\<close>

text \<open>
  Claim C9. When the registrar's \<open>handle\<close> throws in \<open>start\<close>, the call fails with
  that error and the service is unchanged, so \<open>isStarted\<close> answers as before (false
  on a service that was not started); when \<open>unhandle\<close> throws in \<open>stop\<close>, likewise
  (true on a started service). The flag becomes true, or false, only when the
  registrar call returned. A new service is not started.
\<close>

theorem start_stop_flag_after_registrar:
  "(handle c (protocol self) (maxInboundStreams (init self), maxOutboundStreams (init self)) = Inl e
      \<longrightarrow> start c self = (Inl e, self) \<and> isStarted (snd (start c self)) = isStarted self)
   \<and> (handle c (protocol self) (maxInboundStreams (init self), maxOutboundStreams (init self)) = Inr ()
      \<longrightarrow> start c self = (Inr (), self\<lparr>started := True\<rparr>) \<and> isStarted (snd (start c self)))
   \<and> (unhandle c (protocol self) = Inl e
      \<longrightarrow> stop c self = (Inl e, self) \<and> isStarted (snd (stop c self)) = isStarted self)
   \<and> (unhandle c (protocol self) = Inr ()
      \<longrightarrow> stop c self = (Inr (), self\<lparr>started := False\<rparr>) \<and> \<not> isStarted (snd (stop c self)))
   \<and> \<not> isStarted (FetchService_new n v i)"
  by (simp add: start_def stop_def isStarted_def FetchService_new_def)



theorem start_stop_flag_after_registrar_witness:
  "start (example_components\<lparr>handle := (\<lambda>p opts. Inl (Thrown 2))\<rparr>) example_service
      = (Inl (Thrown 2), example_service)
   \<and> \<not> isStarted (snd (start (example_components\<lparr>handle := (\<lambda>p opts. Inl (Thrown 2))\<rparr>)
                          example_service))
   \<and> start example_components example_service = (Inr (), example_service\<lparr>started := True\<rparr>)
   \<and> stop (example_components\<lparr>unhandle := (\<lambda>p. Inl (Thrown 2))\<rparr>)
        (example_service\<lparr>started := True\<rparr>)
      = (Inl (Thrown 2), example_service\<lparr>started := True\<rparr>)
   \<and> isStarted (snd (stop (example_components\<lparr>unhandle := (\<lambda>p. Inl (Thrown 2))\<rparr>)
                        (example_service\<lparr>started := True\<rparr>)))
   \<and> stop example_components (example_service\<lparr>started := True\<rparr>)
      = (Inr (), example_service\<lparr>started := True, started := False\<rparr>)"
proof -
  let ?c1 = "example_components\<lparr>handle := (\<lambda>p opts. Inl (Thrown 2))\<rparr>"
  let ?c2 = "example_components\<lparr>unhandle := (\<lambda>p. Inl (Thrown 2))\<rparr>"
  let ?on = "example_service\<lparr>started := True\<rparr>"
  have off: "\<not> isStarted example_service" and on: "isStarted ?on"
    by (simp_all add: isStarted_def example_service_def)
  have "start ?c1 example_service = (Inl (Thrown 2), example_service)
        \<and> isStarted (snd (start ?c1 example_service)) = isStarted example_service"
    using start_stop_flag_after_registrar
      [where c = ?c1 and self = example_service and e = "Thrown 2"]
    by simp
  moreover
  have "start example_components example_service
          = (Inr (), example_service\<lparr>started := True\<rparr>)"
    using start_stop_flag_after_registrar
      [where c = example_components and self = example_service]
    by (simp add: example_components_def)
  moreover
  have "stop ?c2 ?on = (Inl (Thrown 2), ?on)
        \<and> isStarted (snd (stop ?c2 ?on)) = isStarted ?on"
    using start_stop_flag_after_registrar
      [where c = ?c2 and self = ?on and e = "Thrown 2"]
    by simp
  moreover
  have "stop example_components ?on = (Inr (), ?on\<lparr>started := False\<rparr>)"
    using start_stop_flag_after_registrar
      [where c = example_components and self = ?on]
    by (simp add: example_components_def)
  ultimately show ?thesis using off on by simp
qed

end
